theory Spec2Isabelle
  imports Complex_Main
begin

section \<open>Python values and the operations the parser applies to them\<close>

text \<open>
  The W-2 parser (task3_w2_parser/w2_parser.py) works on the output of \<^verbatim>\<open>json.loads\<close>:
  nested dictionaries, lists, strings, numbers, booleans and \<^verbatim>\<open>None\<close>. A dictionary is an
  association list here (insertion order kept, lookup by key), a string is a list of
  8-bit characters read as the code points below 256, and a float is the rational number
  it denotes (rounding to a binary double, infinities and NaN are outside the model).
  The one character of the source beyond Latin-1, the bullet U+2022 in front of the
  insight lines, is written as its three UTF-8 bytes.
\<close>

datatype json =
    JNull
  | JBool bool
  | JInt int
  | JFloat rat
  | JStr string
  | JList "json list"
  | JDict "(string \<times> json) list"

text \<open>
  Exceptions are values. Every constructor carries the text \<^verbatim>\<open>str(e)\<close> is built from. The
  texts of the errors the interpreter itself raises follow CPython 3.11.
\<close>

datatype error =
    FileNotFoundError string
  | ValueError string
  | TypeError string
  | AttributeError string
  | KeyError string
  | Exception string

fun str_of_error :: "error \<Rightarrow> string" where
  "str_of_error (FileNotFoundError m) = m"
| "str_of_error (ValueError m) = m"
| "str_of_error (TypeError m) = m"
| "str_of_error (AttributeError m) = m"
| "str_of_error (KeyError k) = [CHR 0x27] @ k @ [CHR 0x27]"
| "str_of_error (Exception m) = m"

definition bindE :: "error + 'a \<Rightarrow> ('a \<Rightarrow> error + 'b) \<Rightarrow> error + 'b" where
  "bindE m f = (case m of Inl e \<Rightarrow> Inl e | Inr x \<Rightarrow> f x)"

fun type_name :: "json \<Rightarrow> string" where
  "type_name JNull = ''NoneType''"
| "type_name (JBool b) = ''bool''"
| "type_name (JInt i) = ''int''"
| "type_name (JFloat r) = ''float''"
| "type_name (JStr s) = ''str''"
| "type_name (JList xs) = ''list''"
| "type_name (JDict kvs) = ''dict''"

text \<open>Truthiness, as \<^verbatim>\<open>if v:\<close> and \<^verbatim>\<open>a and b\<close> test it.\<close>

fun truthy :: "json \<Rightarrow> bool" where
  "truthy JNull = False"
| "truthy (JBool b) = b"
| "truthy (JInt i) = (i \<noteq> 0)"
| "truthy (JFloat r) = (r \<noteq> 0)"
| "truthy (JStr s) = (s \<noteq> [])"
| "truthy (JList xs) = (xs \<noteq> [])"
| "truthy (JDict kvs) = (kvs \<noteq> [])"

fun is_substring :: "string \<Rightarrow> string \<Rightarrow> bool" where
  "is_substring xs [] = (xs = [])"
| "is_substring xs (y # ys) = (take (length xs) (y # ys) = xs \<or> is_substring xs ys)"

text \<open>\<^verbatim>\<open>key in v\<close> for a string key: a key of a dictionary, an element of a list, a
  substring of a string; a TypeError on everything else.\<close>

fun py_contains :: "string \<Rightarrow> json \<Rightarrow> error + bool" where
  "py_contains k (JDict kvs) = Inr (map_of kvs k \<noteq> None)"
| "py_contains k (JList xs) = Inr (JStr k \<in> set xs)"
| "py_contains k (JStr s) = Inr (is_substring k s)"
| "py_contains k v = Inl (TypeError (''argument of type '' @ [CHR 0x27] @ type_name v @ [CHR 0x27] @ '' is not iterable''))"

text \<open>\<^verbatim>\<open>v[key]\<close> for a string key.\<close>

fun py_getitem :: "json \<Rightarrow> string \<Rightarrow> error + json" where
  "py_getitem (JDict kvs) k = (case map_of kvs k of None \<Rightarrow> Inl (KeyError k) | Some x \<Rightarrow> Inr x)"
| "py_getitem (JStr s) k = Inl (TypeError (''string indices must be integers, not '' @ [CHR 0x27] @ ''str'' @ [CHR 0x27]))"
| "py_getitem (JList xs) k = Inl (TypeError ''list indices must be integers or slices, not str'')"
| "py_getitem v k = Inl (TypeError ([CHR 0x27] @ type_name v @ [CHR 0x27] @ '' object is not subscriptable''))"

text \<open>\<^verbatim>\<open>v.get(key, default)\<close>: only a dictionary has the method.\<close>

fun py_get :: "json \<Rightarrow> string \<Rightarrow> json \<Rightarrow> error + json" where
  "py_get (JDict kvs) k dflt = Inr (case map_of kvs k of None \<Rightarrow> dflt | Some x \<Rightarrow> x)"
| "py_get v k dflt = Inl (AttributeError ([CHR 0x27] @ type_name v @ [CHR 0x27] @ '' object has no attribute '' @ [CHR 0x27] @ ''get'' @ [CHR 0x27]))"

text \<open>Assignment to a key keeps the position of a key that exists and appends a new one.\<close>

fun dict_set :: "(string \<times> json) list \<Rightarrow> string \<Rightarrow> json \<Rightarrow> (string \<times> json) list" where
  "dict_set [] k x = [(k, x)]"
| "dict_set ((k', y) # kvs) k x = (if k' = k then (k, x) # kvs else (k', y) # dict_set kvs k x)"

text \<open>\<^verbatim>\<open>v[key] = x\<close> for a string key.\<close>

fun py_setitem :: "json \<Rightarrow> string \<Rightarrow> json \<Rightarrow> error + json" where
  "py_setitem (JDict kvs) k x = Inr (JDict (dict_set kvs k x))"
| "py_setitem (JList xs) k x = Inl (TypeError ''list indices must be integers or slices, not str'')"
| "py_setitem v k x = Inl (TypeError ([CHR 0x27] @ type_name v @ [CHR 0x27] @ '' object does not support item assignment''))"

text \<open>\<^verbatim>\<open>data[k1][k2] = x\<close>: the parser mutates the inner dictionary in place; the model
  writes the updated inner dictionary back under \<open>k1\<close>.\<close>

definition py_setitem2 :: "json \<Rightarrow> string \<Rightarrow> string \<Rightarrow> json \<Rightarrow> error + json" where
  "py_setitem2 data k1 k2 x =
     bindE (py_getitem data k1) (\<lambda>inner.
     bindE (py_setitem inner k2 x) (\<lambda>inner'.
     py_setitem data k1 inner'))"

text \<open>\<^verbatim>\<open>for x in v\<close>: the elements of a list, the keys of a dictionary, the characters
  of a string.\<close>

fun py_iter :: "json \<Rightarrow> error + json list" where
  "py_iter (JList xs) = Inr xs"
| "py_iter (JDict kvs) = Inr (map (\<lambda>kv. JStr (fst kv)) kvs)"
| "py_iter (JStr s) = Inr (map (\<lambda>c. JStr [c]) s)"
| "py_iter v = Inl (TypeError ([CHR 0x27] @ type_name v @ [CHR 0x27] @ '' object is not iterable''))"

text \<open>\<^verbatim>\<open>str(v)\<close> is the string itself on a string. What CPython prints for the other
  values (numbers, lists, dictionaries) is a parameter \<open>repr\<close> of the model.\<close>

definition py_str :: "(json \<Rightarrow> string) \<Rightarrow> json \<Rightarrow> string" where
  "py_str repr v = (case v of JStr s \<Rightarrow> s | _ \<Rightarrow> repr v)"

subsection \<open>Strings\<close>

text \<open>The pattern \<^verbatim>\<open>\d\<close>: among the code points below 256 the decimal digits are 0 to 9.\<close>

definition is_digit :: "char \<Rightarrow> bool" where
  "is_digit c = (c \<in> set ''0123456789'')"

text \<open>\<^verbatim>\<open>str.isspace\<close> on one code point below 256.\<close>

definition is_space :: "char \<Rightarrow> bool" where
  "is_space c = (c \<in> set [CHR 0x09, CHR 0x0A, CHR 0x0B, CHR 0x0C, CHR 0x0D,
                             CHR 0x1C, CHR 0x1D, CHR 0x1E, CHR 0x1F, CHR 0x20, CHR 0x85, CHR 0xA0])"

text \<open>\<^verbatim>\<open>str.strip()\<close>.\<close>

definition strip :: "string \<Rightarrow> string" where
  "strip s = rev (dropWhile is_space (rev (dropWhile is_space s)))"

text \<open>\<^verbatim>\<open>str.lower()\<close>: A to Z, and the upper-case letters of Latin-1 (0xC0 to 0xDE
  without the multiplication sign 0xD7), go to their lower-case letters, 32 places up.\<close>

definition upper_chars :: "string" where
  "upper_chars = ''ABCDEFGHIJKLMNOPQRSTUVWXYZ'' @
     [CHR 0xC0, CHR 0xC1, CHR 0xC2, CHR 0xC3, CHR 0xC4, CHR 0xC5, CHR 0xC6, CHR 0xC7,
      CHR 0xC8, CHR 0xC9, CHR 0xCA, CHR 0xCB, CHR 0xCC, CHR 0xCD, CHR 0xCE, CHR 0xCF,
      CHR 0xD0, CHR 0xD1, CHR 0xD2, CHR 0xD3, CHR 0xD4, CHR 0xD5, CHR 0xD6,
      CHR 0xD8, CHR 0xD9, CHR 0xDA, CHR 0xDB, CHR 0xDC, CHR 0xDD, CHR 0xDE]"

definition lower_chars :: "string" where
  "lower_chars = ''abcdefghijklmnopqrstuvwxyz'' @
     [CHR 0xE0, CHR 0xE1, CHR 0xE2, CHR 0xE3, CHR 0xE4, CHR 0xE5, CHR 0xE6, CHR 0xE7,
      CHR 0xE8, CHR 0xE9, CHR 0xEA, CHR 0xEB, CHR 0xEC, CHR 0xED, CHR 0xEE, CHR 0xEF,
      CHR 0xF0, CHR 0xF1, CHR 0xF2, CHR 0xF3, CHR 0xF4, CHR 0xF5, CHR 0xF6,
      CHR 0xF8, CHR 0xF9, CHR 0xFA, CHR 0xFB, CHR 0xFC, CHR 0xFD, CHR 0xFE]"

definition lower_char :: "char \<Rightarrow> char" where
  "lower_char c = (case map_of (zip upper_chars lower_chars) c of Some l \<Rightarrow> l | None \<Rightarrow> c)"

definition lower :: "string \<Rightarrow> string" where
  "lower s = map lower_char s"

text \<open>\<^verbatim>\<open>re.sub(r'\D', '', s)\<close> and \<^verbatim>\<open>re.sub(r'[^\d.-]', '', s)\<close>.\<close>

definition sub_nondigit :: "string \<Rightarrow> string" where
  "sub_nondigit s = filter is_digit s"

definition sub_nonnumeric :: "string \<Rightarrow> string" where
  "sub_nonnumeric s = filter (\<lambda>c. is_digit c \<or> c = CHR ''.'' \<or> c = CHR ''-'') s"

text \<open>The slice \<^verbatim>\<open>digits[-4:]\<close>.\<close>

definition last4 :: "string \<Rightarrow> string" where
  "last4 ds = drop (length ds - 4) ds"

section \<open>Masking of SSN and EIN\<close>

text \<open>\<^verbatim>\<open>W2Parser._mask_sensitive_data\<close>. The source mutates \<open>data\<close> and returns nothing;
  the model returns the updated tree, or the exception.\<close>

definition mask_employee_ssn :: "(json \<Rightarrow> string) \<Rightarrow> json \<Rightarrow> error + json" where
  "mask_employee_ssn repr data =
     bindE (py_contains ''employee'' data) (\<lambda>present.
     if \<not> present then Inr data else
     bindE (py_getitem data ''employee'') (\<lambda>employee.
     bindE (py_get employee ''ssn'' JNull) (\<lambda>v.
     if \<not> truthy v then Inr data else
       (let ssn = py_str repr v;
            digits = sub_nondigit ssn
        in if length digits \<ge> 4
           then py_setitem2 data ''employee'' ''ssn'' (JStr (''***-**-'' @ last4 digits))
           else py_setitem2 data ''employee'' ''ssn'' (JStr ''***-**-****'')))))"

definition mask_employer_ein :: "(json \<Rightarrow> string) \<Rightarrow> json \<Rightarrow> error + json" where
  "mask_employer_ein repr data =
     bindE (py_contains ''employer'' data) (\<lambda>present.
     if \<not> present then Inr data else
     bindE (py_getitem data ''employer'') (\<lambda>employer.
     bindE (py_get employer ''ein'' JNull) (\<lambda>v.
     if \<not> truthy v then Inr data else
       (let ein = py_str repr v;
            digits = sub_nondigit ein
        in if length digits \<ge> 4
           then py_setitem2 data ''employer'' ''ein'' (JStr (''***-**-'' @ last4 digits))
           else py_setitem2 data ''employer'' ''ein'' (JStr ''***-**-****'')))))"

definition mask_sensitive_data :: "(json \<Rightarrow> string) \<Rightarrow> json \<Rightarrow> error + json" where
  "mask_sensitive_data repr data =
     bindE (mask_employee_ssn repr data) (\<lambda>data1. mask_employer_ein repr data1)"

section \<open>State codes\<close>

text \<open>The table \<^verbatim>\<open>state_mapping\<close> of \<^verbatim>\<open>W2Parser._normalize_state_codes\<close>, in the order
  of the source: for each state its lower-case name and its lower-case abbreviation.\<close>

definition state_mapping :: "(string \<times> string) list" where
  "state_mapping =
     [(''alabama'', ''AL''), (''al'', ''AL''),
      (''alaska'', ''AK''), (''ak'', ''AK''),
      (''arizona'', ''AZ''), (''az'', ''AZ''),
      (''arkansas'', ''AR''), (''ar'', ''AR''),
      (''california'', ''CA''), (''ca'', ''CA''),
      (''colorado'', ''CO''), (''co'', ''CO''),
      (''connecticut'', ''CT''), (''ct'', ''CT''),
      (''delaware'', ''DE''), (''de'', ''DE''),
      (''florida'', ''FL''), (''fl'', ''FL''),
      (''georgia'', ''GA''), (''ga'', ''GA''),
      (''hawaii'', ''HI''), (''hi'', ''HI''),
      (''idaho'', ''ID''), (''id'', ''ID''),
      (''illinois'', ''IL''), (''il'', ''IL''),
      (''indiana'', ''IN''), (''in'', ''IN''),
      (''iowa'', ''IA''), (''ia'', ''IA''),
      (''kansas'', ''KS''), (''ks'', ''KS''),
      (''kentucky'', ''KY''), (''ky'', ''KY''),
      (''louisiana'', ''LA''), (''la'', ''LA''),
      (''maine'', ''ME''), (''me'', ''ME''),
      (''maryland'', ''MD''), (''md'', ''MD''),
      (''massachusetts'', ''MA''), (''ma'', ''MA''),
      (''michigan'', ''MI''), (''mi'', ''MI''),
      (''minnesota'', ''MN''), (''mn'', ''MN''),
      (''mississippi'', ''MS''), (''ms'', ''MS''),
      (''missouri'', ''MO''), (''mo'', ''MO''),
      (''montana'', ''MT''), (''mt'', ''MT''),
      (''nebraska'', ''NE''), (''ne'', ''NE''),
      (''nevada'', ''NV''), (''nv'', ''NV''),
      (''new hampshire'', ''NH''), (''nh'', ''NH''),
      (''new jersey'', ''NJ''), (''nj'', ''NJ''),
      (''new mexico'', ''NM''), (''nm'', ''NM''),
      (''new york'', ''NY''), (''ny'', ''NY''),
      (''north carolina'', ''NC''), (''nc'', ''NC''),
      (''north dakota'', ''ND''), (''nd'', ''ND''),
      (''ohio'', ''OH''), (''oh'', ''OH''),
      (''oklahoma'', ''OK''), (''ok'', ''OK''),
      (''oregon'', ''OR''), (''or'', ''OR''),
      (''pennsylvania'', ''PA''), (''pa'', ''PA''),
      (''rhode island'', ''RI''), (''ri'', ''RI''),
      (''south carolina'', ''SC''), (''sc'', ''SC''),
      (''south dakota'', ''SD''), (''sd'', ''SD''),
      (''tennessee'', ''TN''), (''tn'', ''TN''),
      (''texas'', ''TX''), (''tx'', ''TX''),
      (''utah'', ''UT''), (''ut'', ''UT''),
      (''vermont'', ''VT''), (''vt'', ''VT''),
      (''virginia'', ''VA''), (''va'', ''VA''),
      (''washington'', ''WA''), (''wa'', ''WA''),
      (''west virginia'', ''WV''), (''wv'', ''WV''),
      (''wisconsin'', ''WI''), (''wi'', ''WI''),
      (''wyoming'', ''WY''), (''wy'', ''WY'')]"

definition is_str :: "json \<Rightarrow> bool" where
  "is_str v = (case v of JStr s \<Rightarrow> True | _ \<Rightarrow> False)"

definition the_str :: "json \<Rightarrow> string" where
  "the_str v = (case v of JStr s \<Rightarrow> s | _ \<Rightarrow> [])"

text \<open>The block the source repeats for each of its three places, on the dictionary
  \<open>holder\<close> that has the key \<^verbatim>\<open>state\<close> (an address, or an entry of \<^verbatim>\<open>state_local\<close>):
  \<^verbatim>\<open>state = holder.get('state', '')\<close>, the test \<^verbatim>\<open>state and isinstance(state, str)\<close>, the
  lookup of \<^verbatim>\<open>state.lower().strip()\<close> and the assignment \<^verbatim>\<open>holder['state'] = ...\<close>.\<close>

definition normalize_state_of :: "json \<Rightarrow> error + json" where
  "normalize_state_of holder =
     bindE (py_get holder ''state'' (JStr [])) (\<lambda>state.
     if truthy state \<and> is_str state then
       (let state_lower = strip (lower (the_str state)) in
        case map_of state_mapping state_lower of
          Some code \<Rightarrow> py_setitem holder ''state'' (JStr code)
        | None \<Rightarrow> Inr holder)
     else Inr holder)"

text \<open>\<^verbatim>\<open>if part in data and 'address' in data[part]\<close>, then the block above on
  \<^verbatim>\<open>data[part]['address']\<close>, for \<open>part\<close> the employee and the employer.\<close>

definition normalize_address_state :: "string \<Rightarrow> json \<Rightarrow> error + json" where
  "normalize_address_state part data =
     bindE (py_contains part data) (\<lambda>present.
     if \<not> present then Inr data else
     bindE (py_getitem data part) (\<lambda>sec.
     bindE (py_contains ''address'' sec) (\<lambda>has_address.
     if \<not> has_address then Inr data else
     bindE (py_getitem sec ''address'') (\<lambda>address.
     bindE (normalize_state_of address) (\<lambda>address'.
     bindE (py_setitem sec ''address'' address') (\<lambda>sec'.
     py_setitem data part sec'))))))"

fun mapE :: "('a \<Rightarrow> error + 'b) \<Rightarrow> 'a list \<Rightarrow> error + 'b list" where
  "mapE f [] = Inr []"
| "mapE f (x # xs) = bindE (f x) (\<lambda>y. bindE (mapE f xs) (\<lambda>ys. Inr (y # ys)))"

text \<open>A loop \<^verbatim>\<open>for state_data in data['state_local']\<close> whose body mutates \<open>state_data\<close>.
  Only the entries of a list can be mutated: iterating over a dictionary or a string
  yields strings, on which the body raises, so such a value comes through only when it
  is empty, and unchanged.\<close>

definition for_each_state_local :: "(json \<Rightarrow> error + json) \<Rightarrow> json \<Rightarrow> error + json" where
  "for_each_state_local body data =
     bindE (py_contains ''state_local'' data) (\<lambda>present.
     if \<not> present then Inr data else
     bindE (py_getitem data ''state_local'') (\<lambda>state_local.
     bindE (py_iter state_local) (\<lambda>entries.
     bindE (mapE body entries) (\<lambda>entries'.
     case state_local of
       JList xs \<Rightarrow> py_setitem data ''state_local'' (JList entries')
     | _ \<Rightarrow> Inr data))))"

definition normalize_state_codes :: "json \<Rightarrow> error + json" where
  "normalize_state_codes data =
     bindE (normalize_address_state ''employee'' data) (\<lambda>data1.
     bindE (normalize_address_state ''employer'' data1) (\<lambda>data2.
     for_each_state_local normalize_state_of data2))"

section \<open>Numeric fields\<close>

text \<open>\<^verbatim>\<open>float(cleaned)\<close> on a string of digits, points and minus signs, which is all that
  the cleaning leaves: an optional sign, then digits with at most one point and at least
  one digit. The value is the decimal number written.\<close>

definition digit_val :: "char \<Rightarrow> nat" where
  "digit_val c = length (takeWhile (\<lambda>d. d \<noteq> c) ''0123456789'')"

definition digits_val :: "string \<Rightarrow> nat" where
  "digits_val ds = foldl (\<lambda>acc c. 10 * acc + digit_val c) 0 ds"

definition py_float :: "string \<Rightarrow> error + rat" where
  "py_float s =
     (let neg = (s \<noteq> [] \<and> hd s = CHR ''-'');
          body = (if neg then tl s else s);
          int_part = takeWhile is_digit body;
          rest = dropWhile is_digit body;
          has_point = (rest \<noteq> [] \<and> hd rest = CHR ''.'');
          frac_part = (if has_point then tl rest else rest)
      in if list_all is_digit frac_part \<and> (int_part \<noteq> [] \<or> frac_part \<noteq> [])
         then Inr ((if neg then - 1 else 1) *
                   (of_nat (digits_val int_part) + of_nat (digits_val frac_part) / 10 ^ length frac_part))
         else Inl (ValueError (''could not convert string to float: '' @ [CHR 0x27] @ s @ [CHR 0x27])))"

definition monetary_fields :: "string list" where
  "monetary_fields =
     [''wages_tips'', ''federal_income_tax'', ''social_security_wages'',
      ''social_security_tax'', ''medicare_wages'', ''medicare_tax'',
      ''social_security_tips'', ''allocated_tips'', ''dependent_care_benefits'',
      ''nonqualified_plans'']"

definition state_monetary_fields :: "string list" where
  "state_monetary_fields = [''state_wages'', ''state_income_tax'']"

text \<open>The body of the \<^verbatim>\<open>try\<close>, on the dictionary \<open>holder\<close> that has the field
  (\<^verbatim>\<open>data['federal']\<close>, or an entry of \<^verbatim>\<open>state_local\<close>).\<close>

definition convert_try :: "json \<Rightarrow> string \<Rightarrow> error + json" where
  "convert_try holder field =
     bindE (py_getitem holder field) (\<lambda>value.
     if is_str value then
       (let cleaned = sub_nonnumeric (the_str value) in
        if cleaned \<noteq> [] \<and> cleaned \<noteq> ''-''
        then bindE (py_float cleaned) (\<lambda>x. py_setitem holder field (JFloat x))
        else py_setitem holder field JNull)
     else Inr holder)"

definition is_value_or_type_error :: "error \<Rightarrow> bool" where
  "is_value_or_type_error e = (case e of ValueError m \<Rightarrow> True | TypeError m \<Rightarrow> True | _ \<Rightarrow> False)"

text \<open>One round of the loop over the field names: the guard
  \<^verbatim>\<open>if field in holder and holder[field]\<close>, the \<^verbatim>\<open>try\<close>, and
  \<^verbatim>\<open>except (ValueError, TypeError)\<close>.\<close>

definition convert_field :: "json \<Rightarrow> string \<Rightarrow> error + json" where
  "convert_field holder field =
     bindE (py_contains field holder) (\<lambda>present.
     if \<not> present then Inr holder else
     bindE (py_getitem holder field) (\<lambda>v.
     if \<not> truthy v then Inr holder else
       (case convert_try holder field of
          Inr holder' \<Rightarrow> Inr holder'
        | Inl e \<Rightarrow> if is_value_or_type_error e then py_setitem holder field JNull else Inl e)))"

fun convert_fields :: "json \<Rightarrow> string list \<Rightarrow> error + json" where
  "convert_fields holder [] = Inr holder"
| "convert_fields holder (field # fields) =
     bindE (convert_field holder field) (\<lambda>holder'. convert_fields holder' fields)"

definition convert_federal :: "json \<Rightarrow> error + json" where
  "convert_federal data =
     bindE (py_contains ''federal'' data) (\<lambda>present.
     if \<not> present then Inr data else
     bindE (py_getitem data ''federal'') (\<lambda>federal.
     bindE (convert_fields federal monetary_fields) (\<lambda>federal'.
     py_setitem data ''federal'' federal')))"

definition convert_numeric_fields :: "json \<Rightarrow> error + json" where
  "convert_numeric_fields data =
     bindE (convert_federal data) (\<lambda>data1.
     for_each_state_local (\<lambda>state_data. convert_fields state_data state_monetary_fields) data1)"

section \<open>Normalization\<close>

text \<open>\<^verbatim>\<open>W2Parser._normalize_data\<close>.\<close>

definition normalize_data :: "(json \<Rightarrow> string) \<Rightarrow> json \<Rightarrow> error + json" where
  "normalize_data repr data =
     (if \<not> truthy data then Inr (JDict []) else
      bindE (py_get data ''employee'' (JDict [])) (\<lambda>employee.
      bindE (py_get data ''employer'' (JDict [])) (\<lambda>employer.
      bindE (py_get data ''federal'' (JDict [])) (\<lambda>federal.
      bindE (py_get data ''state_local'' (JList [])) (\<lambda>state_local.
      bindE (py_get data ''other_boxes'' (JDict [])) (\<lambda>other_boxes.
      (let normalized = JDict [(''employee'', employee), (''employer'', employer),
                               (''federal'', federal), (''state_local'', state_local),
                               (''other_boxes'', other_boxes)]
       in bindE (mask_sensitive_data repr normalized) (\<lambda>n1.
          bindE (normalize_state_codes n1) (\<lambda>n2.
          convert_numeric_fields n2)))))))))"

section \<open>Comparison of values\<close>

text \<open>Numbers compare by value across \<^verbatim>\<open>bool\<close>, \<^verbatim>\<open>int\<close> and \<^verbatim>\<open>float\<close>.\<close>

fun num_val :: "json \<Rightarrow> rat option" where
  "num_val (JBool b) = Some (if b then 1 else 0)"
| "num_val (JInt i) = Some (of_int i)"
| "num_val (JFloat r) = Some r"
| "num_val v = None"

text \<open>\<^verbatim>\<open>a == b\<close>: lists element by element, dictionaries key by key.\<close>

fun py_eq :: "json \<Rightarrow> json \<Rightarrow> bool"
and py_eq_list :: "json list \<Rightarrow> json list \<Rightarrow> bool"
and py_eq_items :: "(string \<times> json) list \<Rightarrow> (string \<times> json) list \<Rightarrow> bool" where
  "py_eq JNull w = (w = JNull)"
| "py_eq (JBool b) w = (num_val w = Some (if b then 1 else 0))"
| "py_eq (JInt i) w = (num_val w = Some (of_int i))"
| "py_eq (JFloat r) w = (num_val w = Some r)"
| "py_eq (JStr s) w = (w = JStr s)"
| "py_eq (JList xs) w = (case w of JList ys \<Rightarrow> py_eq_list xs ys | _ \<Rightarrow> False)"
| "py_eq (JDict a) w = (case w of JDict b \<Rightarrow> length a = length b \<and> py_eq_items a b | _ \<Rightarrow> False)"
| "py_eq_list [] ys = (ys = [])"
| "py_eq_list (x # xs) ys = (case ys of [] \<Rightarrow> False | y # ys' \<Rightarrow> py_eq x y \<and> py_eq_list xs ys')"
| "py_eq_items [] b = True"
| "py_eq_items (kv # a) b =
     ((case map_of b (fst kv) of None \<Rightarrow> False | Some v' \<Rightarrow> py_eq (snd kv) v') \<and> py_eq_items a b)"

text \<open>Strings compare code point by code point.\<close>

fun str_gt :: "string \<Rightarrow> string \<Rightarrow> bool" where
  "str_gt [] t = False"
| "str_gt (x # xs) [] = True"
| "str_gt (x # xs) (y # ys) = ((of_char y :: nat) < of_char x \<or> (x = y \<and> str_gt xs ys))"

definition gt_type_error :: "json \<Rightarrow> json \<Rightarrow> error" where
  "gt_type_error a b =
     TypeError ([CHR 0x27] @ ''>'' @ [CHR 0x27] @ '' not supported between instances of '' @
                [CHR 0x27] @ type_name a @ [CHR 0x27] @ '' and '' @ [CHR 0x27] @ type_name b @ [CHR 0x27])"

text \<open>\<^verbatim>\<open>a > b\<close>: numbers with numbers, strings with strings, lists with lists (at the
  first pair of unequal elements); a TypeError on every other pair.\<close>

fun py_gt :: "json \<Rightarrow> json \<Rightarrow> error + bool"
and py_gt_list :: "json list \<Rightarrow> json list \<Rightarrow> error + bool" where
  "py_gt JNull w = Inl (gt_type_error JNull w)"
| "py_gt (JBool b) w =
     (case num_val w of Some y \<Rightarrow> Inr (y < (if b then 1 else 0)) | None \<Rightarrow> Inl (gt_type_error (JBool b) w))"
| "py_gt (JInt i) w =
     (case num_val w of Some y \<Rightarrow> Inr (y < of_int i) | None \<Rightarrow> Inl (gt_type_error (JInt i) w))"
| "py_gt (JFloat r) w =
     (case num_val w of Some y \<Rightarrow> Inr (y < r) | None \<Rightarrow> Inl (gt_type_error (JFloat r) w))"
| "py_gt (JStr s) w = (case w of JStr t \<Rightarrow> Inr (str_gt s t) | _ \<Rightarrow> Inl (gt_type_error (JStr s) w))"
| "py_gt (JList xs) w = (case w of JList ys \<Rightarrow> py_gt_list xs ys | _ \<Rightarrow> Inl (gt_type_error (JList xs) w))"
| "py_gt (JDict a) w = Inl (gt_type_error (JDict a) w)"
| "py_gt_list [] ys = Inr False"
| "py_gt_list (x # xs) ys =
     (case ys of [] \<Rightarrow> Inr True
      | y # ys' \<Rightarrow> if py_eq x y then py_gt_list xs ys' else py_gt x y)"

text \<open>\<^verbatim>\<open>len(v)\<close>.\<close>

fun py_len :: "json \<Rightarrow> error + nat" where
  "py_len (JStr s) = Inr (length s)"
| "py_len (JList xs) = Inr (length xs)"
| "py_len (JDict kvs) = Inr (length kvs)"
| "py_len v = Inl (TypeError (''object of type '' @ [CHR 0x27] @ type_name v @ [CHR 0x27] @ '' has no len()''))"

section \<open>The employee's address\<close>

fun join_strs :: "string \<Rightarrow> string list \<Rightarrow> string" where
  "join_strs sep [] = []"
| "join_strs sep [x] = x"
| "join_strs sep (x # y # ys) = x @ sep @ join_strs sep (y # ys)"

text \<open>\<^verbatim>\<open>sep.join(components)\<close> raises a TypeError that names the first component that
  is not a string. The parser joins four components at most, so one digit writes the
  index.\<close>

definition py_join :: "string \<Rightarrow> json list \<Rightarrow> error + string" where
  "py_join sep components =
     (if list_all is_str components then Inr (join_strs sep (map the_str components))
      else (let i = length (takeWhile is_str components) in
            Inl (TypeError (''sequence item '' @ [''0123456789'' ! i] @ '': expected str instance, '' @
                            type_name (components ! i) @ '' found''))))"

text \<open>\<^verbatim>\<open>if addr.get(key): components.append(addr[key])\<close>.\<close>

definition append_component :: "json \<Rightarrow> string \<Rightarrow> json list \<Rightarrow> error + json list" where
  "append_component addr key components =
     bindE (py_get addr key JNull) (\<lambda>v.
     if truthy v then bindE (py_getitem addr key) (\<lambda>x. Inr (components @ [x]))
     else Inr components)"

text \<open>\<^verbatim>\<open>W2Parser._get_employee_address\<close>.\<close>

definition get_employee_address :: "json \<Rightarrow> error + string" where
  "get_employee_address data =
     bindE (py_contains ''employee'' data) (\<lambda>present.
     if \<not> present then Inr [] else
     bindE (py_getitem data ''employee'') (\<lambda>employee.
     bindE (py_contains ''address'' employee) (\<lambda>has_address.
     if \<not> has_address then Inr [] else
     bindE (py_getitem employee ''address'') (\<lambda>addr.
     bindE (append_component addr ''street'' []) (\<lambda>c1.
     bindE (append_component addr ''city'' c1) (\<lambda>c2.
     bindE (append_component addr ''state'' c2) (\<lambda>c3.
     bindE (append_component addr ''zip'' c3) (\<lambda>c4.
     py_join '', '' c4))))))))"

section \<open>The quality report\<close>

definition critical_fields :: "string list" where
  "critical_fields =
     [''employee.name'', ''employee.ssn'', ''federal.wages_tips'', ''federal.federal_income_tax'']"

text \<open>\<^verbatim>\<open>field_path.split('.')\<close>.\<close>

fun split_on :: "char \<Rightarrow> string \<Rightarrow> string list" where
  "split_on c [] = [[]]"
| "split_on c (x # xs) =
     (if x = c then [] # split_on c xs
      else (case split_on c xs of [] \<Rightarrow> [[x]] | p # ps \<Rightarrow> (x # p) # ps))"

text \<open>The inner loop over the parts of one path, with its \<^verbatim>\<open>break\<close>: the value of
  \<open>found\<close> at the end. The test \<^verbatim>\<open>current[part] not in [None, ""]\<close> compares with \<^verbatim>\<open>==\<close>.\<close>

fun check_path :: "json \<Rightarrow> string list \<Rightarrow> error + bool" where
  "check_path current [] = Inr True"
| "check_path current (part # parts) =
     bindE (py_contains part current) (\<lambda>present.
     if \<not> present then Inr False else
     bindE (py_getitem current part) (\<lambda>v.
     if py_eq v JNull \<or> py_eq v (JStr []) then Inr False
     else check_path v parts))"

text \<open>The outer loop: the paths that were not found, in the order of \<open>critical_fields\<close>.\<close>

fun missing_paths :: "json \<Rightarrow> string list \<Rightarrow> error + string list" where
  "missing_paths data [] = Inr []"
| "missing_paths data (field_path # rest) =
     bindE (check_path data (split_on (CHR ''.'') field_path)) (\<lambda>found.
     bindE (missing_paths data rest) (\<lambda>missing.
     Inr (if found then missing else field_path # missing)))"

text \<open>The three checks of \<^verbatim>\<open>W2Parser._generate_quality_report\<close>, each on the warnings and
  the confidence that the checks before it left.\<close>

definition missing_check :: "string list \<Rightarrow> string list \<times> string \<Rightarrow> string list \<times> string" where
  "missing_check missing_fields wc =
     (if missing_fields \<noteq> []
      then (fst wc @ [''Missing critical fields: '' @ join_strs '', '' missing_fields], ''medium'')
      else wc)"

definition text_check :: "nat \<Rightarrow> string list \<times> string \<Rightarrow> string list \<times> string \<times> string" where
  "text_check n wc =
     (if n < 50 then (fst wc @ [''Low text extraction - possible OCR issues''], ''poor'', ''low'')
      else if n < 200 then (fst wc, ''fair'', (if snd wc \<noteq> ''low'' then ''medium'' else snd wc))
      else (fst wc, ''good'', snd wc))"

text \<open>The condition of the third check: \<^verbatim>\<open>federal.get('wages_tips') and
  federal.get('social_security_wages') and federal['social_security_wages'] >
  federal['wages_tips']\<close>, as the \<^verbatim>\<open>if\<close> reads it.\<close>

definition wages_inconsistent :: "json \<Rightarrow> error + bool" where
  "wages_inconsistent federal =
     bindE (py_get federal ''wages_tips'' JNull) (\<lambda>w.
     if \<not> truthy w then Inr False else
     bindE (py_get federal ''social_security_wages'' JNull) (\<lambda>s.
     if \<not> truthy s then Inr False else
     bindE (py_getitem federal ''social_security_wages'') (\<lambda>a.
     bindE (py_getitem federal ''wages_tips'') (\<lambda>b.
     py_gt a b))))"

definition consistency_check :: "bool \<Rightarrow> string list \<Rightarrow> string list" where
  "consistency_check inconsistent warnings =
     (if inconsistent
      then warnings @ [''Social Security wages exceed Box 1 wages - possible data inconsistency'']
      else warnings)"

definition generate_quality_report :: "json \<Rightarrow> string \<Rightarrow> string \<Rightarrow> error + json" where
  "generate_quality_report data extracted_text extraction_method =
     bindE (missing_paths data critical_fields) (\<lambda>missing_fields.
     (let wc1 = missing_check missing_fields ([], ''high'');
          n = length (strip extracted_text);
          wtc = text_check n wc1;
          text_quality = fst (snd wtc);
          confidence = snd (snd wtc)
      in bindE (py_get data ''federal'' (JDict [])) (\<lambda>federal.
         bindE (wages_inconsistent federal) (\<lambda>inconsistent.
         (let warnings = consistency_check inconsistent (fst wtc)
          in Inr (JDict [(''confidence'', JStr confidence),
                         (''warnings'', JList (map JStr warnings)),
                         (''text_quality'', JStr text_quality),
                         (''extraction_method'', JStr extraction_method),
                         (''text_length'', JInt (int n)),
                         (''critical_fields_missing'', JInt (int (length missing_fields)))]))))))"

section \<open>Files, collaborators and the entry point\<close>

text \<open>What the parser takes from outside: the file system (\<^verbatim>\<open>os.path.exists\<close>,
  \<^verbatim>\<open>os.path.getsize\<close>, \<^verbatim>\<open>Path(p).suffix\<close>, reading a text file, writing the output file),
  the PDF and OCR libraries (whether they were imported, the texts of the pages of a PDF,
  the text of an image), the two calls of \<^verbatim>\<open>GeminiClient\<close>, the environment variable
  with the API key, and \<^verbatim>\<open>str\<close> on values that are not strings. Every call that can raise
  returns the exception or the value.\<close>

record env =
  py_repr :: "json \<Rightarrow> string"
  path_exists :: "string \<Rightarrow> bool"
  path_getsize :: "string \<Rightarrow> nat"
  path_suffix :: "string \<Rightarrow> string"
  read_text :: "string \<Rightarrow> error + string"
  write_output :: "string \<Rightarrow> json \<Rightarrow> error + unit"
  ocr_available :: bool
  pdf_page_texts :: "string \<Rightarrow> error + string list"
  image_to_string :: "string \<Rightarrow> error + string"
  extract_w2_data :: "string \<Rightarrow> error + json"
  generate_insights :: "json \<Rightarrow> string \<Rightarrow> error + json"
  getenv_api_key :: "string option"

text \<open>\<^verbatim>\<open>W2Parser._ocr_pdf\<close> returns a fixed text.\<close>

definition ocr_pdf :: "string \<Rightarrow> string" where
  "ocr_pdf file_path = ''PDF OCR would be implemented here with pdf2image conversion''"

text \<open>\<^verbatim>\<open>W2Parser._extract_text_from_pdf\<close>. A page without text adds nothing. The inner
  \<^verbatim>\<open>except\<close> of the fallback cannot be reached, since \<open>ocr_pdf\<close> does not raise.\<close>

definition extract_text_from_pdf :: "env \<Rightarrow> string \<Rightarrow> error + string \<times> string" where
  "extract_text_from_pdf env file_path =
     (if \<not> ocr_available env then Inr (''PDF processing requires PyPDF2 and pytesseract'', ''failed'')
      else (case pdf_page_texts env file_path of
              Inr pages \<Rightarrow>
                (let text = concat (map (\<lambda>page_text. page_text @ [CHR 0x0A]) (filter (\<lambda>t. t \<noteq> []) pages))
                 in if length (strip text) < 100 then Inr (ocr_pdf file_path, ''ocr'')
                    else Inr (text, ''direct_extraction''))
            | Inl e \<Rightarrow> Inr (ocr_pdf file_path, ''ocr_fallback'')))"

text \<open>\<^verbatim>\<open>W2Parser._extract_text_from_image\<close>.\<close>

definition extract_text_from_image :: "env \<Rightarrow> string \<Rightarrow> error + string \<times> string" where
  "extract_text_from_image env file_path =
     (if \<not> ocr_available env then Inr (''Image processing requires PIL and pytesseract'', ''failed'')
      else (case image_to_string env file_path of
              Inr text \<Rightarrow> Inr (text, ''ocr'')
            | Inl e \<Rightarrow> Inl (Exception (''OCR failed: '' @ str_of_error e))))"

text \<open>\<^verbatim>\<open>W2Parser._extract_text_from_file\<close>.\<close>

definition extract_text_from_file :: "env \<Rightarrow> string \<Rightarrow> error + string \<times> string" where
  "extract_text_from_file env file_path =
     (if \<not> path_exists env file_path then Inl (FileNotFoundError (''File not found: '' @ file_path))
      else (let file_ext = lower (path_suffix env file_path) in
            if file_ext \<in> set [''.pdf''] then extract_text_from_pdf env file_path
            else if file_ext \<in> set [''.jpg'', ''.jpeg'', ''.png'', ''.tiff'', ''.bmp'']
              then extract_text_from_image env file_path
            else if file_ext \<in> set [''.txt'']
              then bindE (read_text env file_path) (\<lambda>text. Inr (text, ''direct_text''))
            else Inl (ValueError (''Unsupported file format: '' @ file_ext))))"

definition bullet :: "string" where
  "bullet = [CHR 0xE2, CHR 0x80, CHR 0xA2]"

text \<open>The \<^verbatim>\<open>try\<close> block of \<^verbatim>\<open>W2Parser.process_w2\<close>: steps 1 to 5 and the result.\<close>

definition pipeline :: "env \<Rightarrow> string \<Rightarrow> error + json" where
  "pipeline env file_path =
     bindE (extract_text_from_file env file_path) (\<lambda>(text_content, extraction_method).
     bindE (extract_w2_data env text_content) (\<lambda>extracted_data.
     bindE (normalize_data (py_repr env) extracted_data) (\<lambda>normalized_data.
     bindE (get_employee_address normalized_data) (\<lambda>address.
     bindE (generate_insights env normalized_data address) (\<lambda>insights_data.
     bindE (generate_quality_report normalized_data text_content extraction_method) (\<lambda>quality_report.
     bindE (py_get insights_data ''insights'' (JList [])) (\<lambda>insights.
     Inr (JDict [(''fields'', normalized_data),
                 (''insights'', insights),
                 (''quality'', quality_report)]))))))))"

text \<open>The result of the \<^verbatim>\<open>except Exception as e\<close> branch, from the text \<^verbatim>\<open>str(e)\<close>.\<close>

definition degraded_result :: "string \<Rightarrow> json" where
  "degraded_result msg =
     JDict [(''fields'', JDict []),
            (''insights'', JList [JStr (bullet @ '' Processing error: '' @ msg)]),
            (''quality'', JDict [(''confidence'', JStr ''low''),
                                 (''warnings'', JList [JStr (''Processing failed: '' @ msg)]),
                                 (''ocr_quality'', JStr ''unknown''),
                                 (''extraction_method'', JStr ''failed'')])]"

text \<open>\<^verbatim>\<open>W2Parser._process_test_mode\<close>.\<close>

definition process_test_mode :: "json" where
  "process_test_mode =
     JDict [
       (''fields'', JDict [
          (''employee'', JDict [
             (''name'', JStr ''John A. Doe''),
             (''address'', JDict [(''street'', JStr ''123 Main Street''), (''city'', JStr ''New York''),
                                  (''state'', JStr ''NY''), (''zip'', JStr ''10001'')]),
             (''ssn'', JStr ''***-**-1234'')]),
          (''employer'', JDict [
             (''name'', JStr ''Tech Solutions Inc.''),
             (''address'', JDict [(''street'', JStr ''456 Business Avenue''), (''city'', JStr ''New York''),
                                  (''state'', JStr ''NY''), (''zip'', JStr ''10002'')]),
             (''ein'', JStr ''***-**-5678''),
             (''state_id'', JStr ''NY-123456789'')]),
          (''federal'', JDict [
             (''wages_tips'', JFloat 75000), (''federal_income_tax'', JFloat 15000),
             (''social_security_wages'', JFloat 75000), (''social_security_tax'', JFloat 4650),
             (''medicare_wages'', JFloat 75000), (''medicare_tax'', JFloat (2175 / 2)),
             (''social_security_tips'', JFloat 0), (''allocated_tips'', JFloat 0),
             (''dependent_care_benefits'', JFloat 0), (''nonqualified_plans'', JFloat 0)]),
          (''state_local'', JList [
             JDict [(''state'', JStr ''NY''), (''employer_state_id'', JStr ''NY-123456789''),
                    (''state_wages'', JFloat 75000), (''state_income_tax'', JFloat 4500)]]),
          (''other_boxes'', JDict [
             (''box_12'', JDict [(''D'', JFloat 5000)]),
             (''box_13'', JDict [(''statutory_employee'', JBool False), (''retirement_plan'', JBool True),
                                 (''third_party_sick_pay'', JBool False)]),
             (''box_14'', JDict [(''other_info'', JStr ''Professional dues: 300.00'')])])]),
       (''insights'', JList [
          JStr (bullet @ '' Test mode: Using simulated W-2 data''),
          JStr (bullet @ '' Address validation: ZIP code 10001 corresponds to NY state, matches employer state''),
          JStr (bullet @ '' Federal withholding at 20.0% of Box 1 wages ($15,000 / $75,000)''),
          JStr (bullet @ '' Social Security wages below annual limit of $160,200 for 2023''),
          JStr (bullet @ '' Single state income reported for New York with $4,500 state tax withheld''),
          JStr (bullet @ '' All critical W-2 boxes present and consistent''),
          JStr (bullet @ '' Retirement plan participation indicated in Box 13'')]),
       (''quality'', JDict [
          (''confidence'', JStr ''high''),
          (''warnings'', JList [JStr ''Test mode - no actual processing performed'']),
          (''text_quality'', JStr ''good''),
          (''extraction_method'', JStr ''test_mode''),
          (''text_length'', JInt 0),
          (''critical_fields_missing'', JInt 0)])]"

text \<open>\<^verbatim>\<open>W2Parser.process_w2\<close>, with the parser's \<^verbatim>\<open>test_mode\<close> as an argument. The result
  type keeps a place for an exception that leaves the function.\<close>

definition process_w2 :: "env \<Rightarrow> bool \<Rightarrow> string \<Rightarrow> error + json" where
  "process_w2 env test_mode file_path =
     (if test_mode then Inr process_test_mode
      else (case pipeline env file_path of
              Inr result \<Rightarrow> Inr result
            | Inl e \<Rightarrow> Inr (degraded_result (str_of_error e))))"

text \<open>The constructors \<^verbatim>\<open>W2Parser.__init__\<close> and \<^verbatim>\<open>GeminiClient.__init__\<close>: outside test
  mode a key is needed, the argument or else the environment variable.\<close>

definition parser_init :: "env \<Rightarrow> string option \<Rightarrow> bool \<Rightarrow> error + unit" where
  "parser_init env api_key test_mode =
     (if test_mode then Inr ()
      else (let key = (if api_key \<noteq> None \<and> api_key \<noteq> Some [] then api_key else getenv_api_key env)
            in if key = None \<or> key = Some []
               then Inl (ValueError ''GEMINI_API_KEY environment variable is required'')
               else Inr ()))"

text \<open>\<^verbatim>\<open>main\<close> of run_parser.py, from the parsed arguments on: it leaves through
  \<^verbatim>\<open>sys.exit(1)\<close>, or returns after printing the result. The lines of the summary read
  keys and lengths of the result.\<close>

datatype outcome = Exit nat | Printed json

definition print_summary :: "json \<Rightarrow> error + unit" where
  "print_summary result =
     bindE (py_getitem result ''quality'') (\<lambda>quality.
     bindE (py_getitem quality ''confidence'') (\<lambda>confidence.
     bindE (py_getitem result ''fields'') (\<lambda>fields.
     bindE (py_len fields) (\<lambda>n_fields.
     bindE (py_getitem result ''insights'') (\<lambda>insights.
     bindE (py_len insights) (\<lambda>n_insights.
     bindE (py_getitem quality ''warnings'') (\<lambda>warnings.
     if truthy warnings then bindE (py_len warnings) (\<lambda>n_warnings. Inr ()) else Inr ())))))))"

definition main :: "env \<Rightarrow> string \<Rightarrow> bool \<Rightarrow> string option \<Rightarrow> string option \<Rightarrow> outcome" where
  "main env file_path test_mode output api_key =
     (if \<not> path_exists env file_path then Exit 1
      else if path_getsize env file_path = 0 then Exit 1
      else (case bindE (parser_init env api_key test_mode) (\<lambda>u.
                 bindE (process_w2 env test_mode file_path) (\<lambda>result.
                 bindE (case output of
                          Some out \<Rightarrow> if out \<noteq> [] then write_output env out result else Inr ()
                        | None \<Rightarrow> Inr ()) (\<lambda>u.
                 bindE (print_summary result) (\<lambda>u. Inr result)))) of
              Inr result \<Rightarrow> Printed result
            | Inl e \<Rightarrow> Exit 1))"

section \<open>Reading a tree, and the shape of a field tree\<close>

text \<open>The value at a path of keys through nested dictionaries, if every key is there.\<close>

fun path_lookup :: "json \<Rightarrow> string list \<Rightarrow> json option" where
  "path_lookup v [] = Some v"
| "path_lookup (JDict kvs) (k # ks) = (case map_of kvs k of None \<Rightarrow> None | Some x \<Rightarrow> path_lookup x ks)"
| "path_lookup v (k # ks) = None"

definition is_dict :: "json \<Rightarrow> bool" where
  "is_dict v = (case v of JDict kvs \<Rightarrow> True | _ \<Rightarrow> False)"

text \<open>The employee and the employer section: a mapping whose address, when it has one, is
  a mapping.\<close>

definition party_ok :: "json \<Rightarrow> bool" where
  "party_ok v =
     (case v of JDict es \<Rightarrow> (case map_of es ''address'' of None \<Rightarrow> True | Some a \<Rightarrow> is_dict a)
      | _ \<Rightarrow> False)"

definition state_local_ok :: "json \<Rightarrow> bool" where
  "state_local_ok v = (case v of JList xs \<Rightarrow> list_all is_dict xs | _ \<Rightarrow> False)"

text \<open>A field tree as the data model of the specification describes it: a mapping whose
  sections, where present, are mappings (a list of mappings for \<^verbatim>\<open>state_local\<close>). Nothing is
  asked of the values of the fields or of \<^verbatim>\<open>other_boxes\<close>.\<close>

definition field_tree :: "json \<Rightarrow> bool" where
  "field_tree data =
     (case data of
        JDict kvs \<Rightarrow>
          (case map_of kvs ''employee'' of None \<Rightarrow> True | Some e \<Rightarrow> party_ok e) \<and>
          (case map_of kvs ''employer'' of None \<Rightarrow> True | Some e \<Rightarrow> party_ok e) \<and>
          (case map_of kvs ''federal'' of None \<Rightarrow> True | Some f \<Rightarrow> is_dict f) \<and>
          (case map_of kvs ''state_local'' of None \<Rightarrow> True | Some l \<Rightarrow> state_local_ok l)
      | _ \<Rightarrow> False)"

text \<open>The entries of \<^verbatim>\<open>state_local\<close>.\<close>

definition state_local_entries :: "json \<Rightarrow> json list" where
  "state_local_entries data = (case path_lookup data [''state_local''] of Some (JList xs) \<Rightarrow> xs | _ \<Rightarrow> [])"

section \<open>The rules as the specification words them\<close>

text \<open>Masking: strip all non-digit characters; with four digits or more the mask ends in
  the last four digits, with fewer it is the fixed sentinel. An empty value stays.\<close>

definition spec_mask :: "string \<Rightarrow> string" where
  "spec_mask raw =
     (let digits = filter (\<lambda>c. c \<in> set ''0123456789'') raw in
      if length digits \<ge> 4 then ''***-**-'' @ rev (take 4 (rev digits)) else ''***-**-****'')"

definition spec_mask_value :: "(json \<Rightarrow> string) \<Rightarrow> json \<Rightarrow> json" where
  "spec_mask_value repr v = (if truthy v then JStr (spec_mask (py_str repr v)) else v)"

text \<open>State codes. The fifty states of the United States, each with its name in lower
  case and its two-letter postal abbreviation; the District of Columbia and the
  territories are not among them. The code of a value is the abbreviation of the state
  whose name or whose abbreviation the value equals once it is trimmed and in lower case.
  A value that is a string with a code is rewritten to the code; every other value
  stays.\<close>

definition us_states :: "(string \<times> string) list" where
  "us_states =
     [(''alabama'', ''AL''), (''alaska'', ''AK''), (''arizona'', ''AZ''),
      (''arkansas'', ''AR''), (''california'', ''CA''), (''colorado'', ''CO''),
      (''connecticut'', ''CT''), (''delaware'', ''DE''), (''florida'', ''FL''),
      (''georgia'', ''GA''), (''hawaii'', ''HI''), (''idaho'', ''ID''),
      (''illinois'', ''IL''), (''indiana'', ''IN''), (''iowa'', ''IA''),
      (''kansas'', ''KS''), (''kentucky'', ''KY''), (''louisiana'', ''LA''),
      (''maine'', ''ME''), (''maryland'', ''MD''), (''massachusetts'', ''MA''),
      (''michigan'', ''MI''), (''minnesota'', ''MN''), (''mississippi'', ''MS''),
      (''missouri'', ''MO''), (''montana'', ''MT''), (''nebraska'', ''NE''),
      (''nevada'', ''NV''), (''new hampshire'', ''NH''), (''new jersey'', ''NJ''),
      (''new mexico'', ''NM''), (''new york'', ''NY''), (''north carolina'', ''NC''),
      (''north dakota'', ''ND''), (''ohio'', ''OH''), (''oklahoma'', ''OK''),
      (''oregon'', ''OR''), (''pennsylvania'', ''PA''), (''rhode island'', ''RI''),
      (''south carolina'', ''SC''), (''south dakota'', ''SD''), (''tennessee'', ''TN''),
      (''texas'', ''TX''), (''utah'', ''UT''), (''vermont'', ''VT''),
      (''virginia'', ''VA''), (''washington'', ''WA''), (''west virginia'', ''WV''),
      (''wisconsin'', ''WI''), (''wyoming'', ''WY'')]"

text \<open>The District of Columbia and the five inhabited territories, by name and by postal
  abbreviation.\<close>

definition us_territories :: "string list" where
  "us_territories =
     [''district of columbia'', ''dc'', ''puerto rico'', ''pr'', ''guam'', ''gu'',
      ''american samoa'', ''as'', ''u.s. virgin islands'', ''virgin islands'', ''vi'',
      ''northern mariana islands'', ''mp'']"

text \<open>A canonical code: two upper-case letters.\<close>

definition is_state_code :: "string \<Rightarrow> bool" where
  "is_state_code code = (length code = 2 \<and> list_all (\<lambda>c. c \<in> set ''ABCDEFGHIJKLMNOPQRSTUVWXYZ'') code)"

definition spec_state_code :: "string \<Rightarrow> string option" where
  "spec_state_code s =
     (let t = lower (strip s) in
      map_option snd (find (\<lambda>entry. t = fst entry \<or> t = lower (snd entry)) us_states))"

definition spec_normalize_state :: "json \<Rightarrow> json" where
  "spec_normalize_state v =
     (case v of
        JStr s \<Rightarrow> (case spec_state_code s of Some code \<Rightarrow> JStr code | None \<Rightarrow> v)
      | _ \<Rightarrow> v)"

text \<open>Numeric coercion as the claim words it: a string loses every character but digits,
  the point and the minus sign; what is left is parsed when it is not empty and not the
  minus sign alone, and the field is null when there is nothing to parse or the parse
  fails; a value that is not a string stays.\<close>

definition claimed_convert :: "json \<Rightarrow> json" where
  "claimed_convert v =
     (case v of
        JStr s \<Rightarrow>
          (let cleaned = filter (\<lambda>c. c \<in> set ''0123456789.-'') s in
           if cleaned \<noteq> [] \<and> cleaned \<noteq> ''-''
           then (case py_float cleaned of Inr x \<Rightarrow> JFloat x | Inl e \<Rightarrow> JNull)
           else JNull)
      | _ \<Rightarrow> v)"

text \<open>The same rule with the guard of the source: an empty string is an empty value, and
  stays.\<close>

definition spec_convert :: "json \<Rightarrow> json" where
  "spec_convert v = (if truthy v then claimed_convert v else v)"

text \<open>The quality report. A path of keys is present when every segment is there and no
  value on the way is null or the empty string; it is missing otherwise.\<close>

fun spec_present :: "json \<Rightarrow> string list \<Rightarrow> bool" where
  "spec_present v [] = True"
| "spec_present (JDict kvs) (k # ks) =
     (case map_of kvs k of None \<Rightarrow> False
      | Some x \<Rightarrow> x \<noteq> JNull \<and> x \<noteq> JStr [] \<and> spec_present x ks)"
| "spec_present v (k # ks) = False"

text \<open>The order of the confidence tiers: low below medium below high.\<close>

definition tier_rank :: "string \<Rightarrow> nat" where
  "tier_rank c = (if c = ''high'' then 2 else if c = ''medium'' then 1 else 0)"

definition low_text_warning :: "string" where
  "low_text_warning = ''Low text extraction - possible OCR issues''"

definition inconsistency_warning :: "string" where
  "inconsistency_warning = ''Social Security wages exceed Box 1 wages - possible data inconsistency''"

text \<open>The file extensions that text extraction accepts.\<close>

definition supported_extensions :: "string list" where
  "supported_extensions = [''.pdf'', ''.jpg'', ''.jpeg'', ''.png'', ''.tiff'', ''.bmp'', ''.txt'']"

section \<open>What a step leaves alone\<close>

text \<open>A step from \<open>d\<close> to \<open>d'\<close> that touches only the sections named in \<open>touched\<close>: both
  are dictionaries with the same keys in the same order, \<open>d'\<close> is a field tree, every
  other section is the same, and an empty section is still empty.\<close>

definition frame :: "string set \<Rightarrow> json \<Rightarrow> json \<Rightarrow> bool" where
  "frame touched d d' =
     (\<exists>kvs kvs'. d = JDict kvs \<and> d' = JDict kvs' \<and> map fst kvs' = map fst kvs \<and> field_tree d' \<and>
        (\<forall>k. k \<notin> touched \<longrightarrow> map_of kvs' k = map_of kvs k) \<and>
        (\<forall>k v. map_of kvs k = Some v \<and> \<not> truthy v \<longrightarrow> map_of kvs' k = Some v))"

section \<open>Sample inputs\<close>

text \<open>The tree of the test \<^verbatim>\<open>test_sensitive_data_masking\<close>.\<close>

definition test_masking :: json where
  "test_masking = JDict [(''employee'', JDict [(''ssn'', JStr ''123-45-6789'')]),
                         (''employer'', JDict [(''ein'', JStr ''12-3456789'')])]"

text \<open>The tree of the test \<^verbatim>\<open>test_state_normalization\<close>, with two entries of
  \<^verbatim>\<open>state_local\<close> added.\<close>

definition test_states :: json where
  "test_states =
     JDict [(''employee'', JDict [(''address'', JDict [(''state'', JStr ''california'')])]),
            (''employer'', JDict [(''address'', JDict [(''state'', JStr ''ny'')])]),
            (''state_local'', JList [JDict [(''state'', JStr '' New York '')],
                                     JDict [(''state'', JStr ''Atlantis'')]])]"



text \<open>Trees for the quality report: one without \<^verbatim>\<open>employee.ssn\<close> and
  \<^verbatim>\<open>federal.wages_tips\<close>, one whose wages are 0 under Social Security wages of 50000, and
  a text of ten characters.\<close>

definition test_two_missing :: json where
  "test_two_missing =
     JDict [(''employee'', JDict [(''name'', JStr ''John A. Doe'')]),
            (''federal'', JDict [(''federal_income_tax'', JFloat 15000)])]"

definition test_zero_wages :: json where
  "test_zero_wages =
     JDict [(''federal'', JDict [(''wages_tips'', JFloat 0), (''social_security_wages'', JFloat 50000)])]"

definition test_excess_wages :: json where
  "test_excess_wages =
     JDict [(''federal'', JDict [(''wages_tips'', JFloat 40000), (''social_security_wages'', JFloat 50000)])]"

definition ten_chars :: string where
  "ten_chars = ''0123456789''"

text \<open>A stand-in for \<^verbatim>\<open>str\<close> on values that are not strings.\<close>

definition sample_repr :: "json \<Rightarrow> string" where
  "sample_repr v = []"

text \<open>A world with two files: the text file \<^verbatim>\<open>w2.txt\<close> of ten characters and the file
  \<^verbatim>\<open>w2.doc\<close>; no other path exists. The extraction call returns the tree without
  \<^verbatim>\<open>employee.ssn\<close> and \<^verbatim>\<open>federal.wages_tips\<close>, the insight call one insight. In the second
  world the extraction call raises.\<close>

definition sample_env :: env where
  "sample_env =
     \<lparr> py_repr = sample_repr,
       path_exists = (\<lambda>p. p = ''w2.txt'' \<or> p = ''w2.doc''),
       path_getsize = (\<lambda>p. 10),
       path_suffix = (\<lambda>p. if p = ''w2.txt'' then ''.txt'' else if p = ''w2.doc'' then ''.doc'' else ''.pdf''),
       read_text = (\<lambda>p. Inr ten_chars),
       write_output = (\<lambda>p result. Inr ()),
       ocr_available = False,
       pdf_page_texts = (\<lambda>p. Inr []),
       image_to_string = (\<lambda>p. Inr []),
       extract_w2_data = (\<lambda>text. Inr test_two_missing),
       generate_insights = (\<lambda>fields address. Inr (JDict [(''insights'', JList [JStr ''Wages are reported''])])),
       getenv_api_key = Some ''key'' \<rparr>"

definition failing_env :: env where
  "failing_env = sample_env \<lparr> extract_w2_data := (\<lambda>text. Inl (Exception ''Gemini extraction failed: quota'')) \<rparr>"

section \<open>Properties\<close>

lemma bindE_simps [simp]:
  "bindE (Inl e) f = Inl e"
  "bindE (Inr x) f = f x"
  by (simp_all add: bindE_def)

subsection \<open>Dictionaries and frames\<close>

lemma map_of_dict_set: "map_of (dict_set kvs k x) k' = (if k' = k then Some x else map_of kvs k')"
  by (induction kvs) auto

lemma keys_dict_set: "map_of kvs k \<noteq> None \<Longrightarrow> map fst (dict_set kvs k x) = map fst kvs"
  by (induction kvs) auto

lemma dict_set_same: "map_of kvs k = Some x \<Longrightarrow> dict_set kvs k x = kvs"
  by (induction kvs) (auto split: if_splits)

lemma dict_set_nonempty: "dict_set kvs k x \<noteq> []"
  by (cases kvs) (auto split: if_splits)

lemma last4_rev: "last4 ds = rev (take 4 (rev ds))"
  by (simp add: last4_def take_rev)

lemma filter_digits: "filter is_digit s = filter (\<lambda>c. c \<in> set ''0123456789'') s"
  by (rule filter_cong) (simp_all add: is_digit_def)

lemma mask_text: "(let digits = sub_nondigit s in if length digits \<ge> 4 then JStr (''***-**-'' @ last4 digits) else JStr ''***-**-****'') = JStr (spec_mask s)"
  by (simp add: spec_mask_def sub_nondigit_def filter_digits last4_rev Let_def)

lemma mask_employee_ssn_absent:
  "map_of kvs ''employee'' = None \<Longrightarrow> mask_employee_ssn repr (JDict kvs) = Inr (JDict kvs)"
  by (simp add: mask_employee_ssn_def)

lemma mask_employee_ssn_dict:
  "map_of kvs ''employee'' = Some (JDict e) \<Longrightarrow>
   mask_employee_ssn repr (JDict kvs) =
     Inr (JDict (case map_of e ''ssn'' of None \<Rightarrow> kvs
                 | Some v \<Rightarrow> if truthy v
                     then dict_set kvs ''employee'' (JDict (dict_set e ''ssn'' (spec_mask_value repr v)))
                     else kvs))"
  using mask_text[of "py_str repr (the (map_of e ''ssn''))"]
  by (auto simp add: mask_employee_ssn_def py_setitem2_def spec_mask_value_def Let_def split: option.splits)

lemma mask_employer_ein_absent:
  "map_of kvs ''employer'' = None \<Longrightarrow> mask_employer_ein repr (JDict kvs) = Inr (JDict kvs)"
  by (simp add: mask_employer_ein_def)

lemma mask_employer_ein_dict:
  "map_of kvs ''employer'' = Some (JDict e) \<Longrightarrow>
   mask_employer_ein repr (JDict kvs) =
     Inr (JDict (case map_of e ''ein'' of None \<Rightarrow> kvs
                 | Some v \<Rightarrow> if truthy v
                     then dict_set kvs ''employer'' (JDict (dict_set e ''ein'' (spec_mask_value repr v)))
                     else kvs))"
  using mask_text[of "py_str repr (the (map_of e ''ein''))"]
  by (auto simp add: mask_employer_ein_def py_setitem2_def spec_mask_value_def Let_def split: option.splits)

lemma frame_refl: "field_tree (JDict kvs) \<Longrightarrow> frame T (JDict kvs) (JDict kvs)"
  by (simp add: frame_def)

lemma frame_trans: "frame A d d' \<Longrightarrow> frame B d' d'' \<Longrightarrow> frame (A \<union> B) d d''"
  unfolding frame_def by (elim exE conjE) auto

lemma frame_path: "frame T d d' \<Longrightarrow> k \<notin> T \<Longrightarrow> path_lookup d' (k # ks) = path_lookup d (k # ks)"
  unfolding frame_def by (elim exE conjE) simp

lemma frame_field_tree: "frame T d d' \<Longrightarrow> field_tree d'"
  unfolding frame_def by blast

lemma field_tree_party:
  "field_tree (JDict kvs) \<Longrightarrow> p = ''employee'' \<or> p = ''employer'' \<Longrightarrow> map_of kvs p = Some sec \<Longrightarrow> party_ok sec"
  by (auto simp add: field_tree_def)

lemma party_ok_dict_set:
  "party_ok (JDict e) \<Longrightarrow> k \<noteq> ''address'' \<Longrightarrow> party_ok (JDict (dict_set e k x))"
  by (simp add: party_ok_def map_of_dict_set)

text \<open>Replacing the section of the employee or of the employer.\<close>

lemma frame_party_update:
  assumes ft: "field_tree (JDict kvs)"
      and sec: "map_of kvs p = Some (JDict e)"
      and p: "p = ''employee'' \<or> p = ''employer''"
      and pk: "party_ok (JDict e')"
      and ne: "e \<noteq> []"
  shows "frame {p} (JDict kvs) (JDict (dict_set kvs p (JDict e')))"
proof -
  have keys: "map fst (dict_set kvs p (JDict e')) = map fst kvs"
    using sec keys_dict_set[of kvs p "JDict e'"] by simp
  have tree: "field_tree (JDict (dict_set kvs p (JDict e')))"
    using p
  proof
    assume "p = ''employee''"
    then show ?thesis using ft pk by (simp add: field_tree_def map_of_dict_set)
  next
    assume "p = ''employer''"
    then show ?thesis using ft pk by (simp add: field_tree_def map_of_dict_set)
  qed
  have other: "\<forall>k. k \<notin> {p} \<longrightarrow> map_of (dict_set kvs p (JDict e')) k = map_of kvs k"
    by (simp add: map_of_dict_set)
  have empty: "\<forall>k v. map_of kvs k = Some v \<and> \<not> truthy v \<longrightarrow> map_of (dict_set kvs p (JDict e')) k = Some v"
    using sec ne by (auto simp add: map_of_dict_set)
  show ?thesis
    unfolding frame_def
    by (rule exI[of _ kvs], rule exI[of _ "dict_set kvs p (JDict e')"]) (use keys tree other empty in blast)
qed

lemma mask_employee_ssn_tree:
  assumes ft: "field_tree (JDict kvs)"
  shows "\<exists>d'. mask_employee_ssn repr (JDict kvs) = Inr d' \<and> frame {''employee''} (JDict kvs) d' \<and>
           path_lookup d' [''employee'', ''ssn''] = map_option (spec_mask_value repr) (path_lookup (JDict kvs) [''employee'', ''ssn''])"
proof (cases "map_of kvs ''employee''")
  case None
  then show ?thesis using ft mask_employee_ssn_absent[OF None, of repr] by (simp add: frame_refl)
next
  case (Some sec)
  with ft obtain e where e: "sec = JDict e" by (cases sec) (auto simp: field_tree_def party_ok_def)
  have sec: "map_of kvs ''employee'' = Some (JDict e)" using Some e by simp
  note res = mask_employee_ssn_dict[OF sec, of repr]
  show ?thesis
  proof (cases "map_of e ''ssn''")
    case None
    then show ?thesis using sec ft res by (simp add: frame_refl)
  next
    case (Some v)
    show ?thesis
    proof (cases "truthy v")
      case False
      then show ?thesis using Some sec ft res
        by (simp add: frame_refl spec_mask_value_def)
    next
      case True
      have "party_ok (JDict e)" using field_tree_party[OF ft _ sec] by simp
      then have "party_ok (JDict (dict_set e ''ssn'' (spec_mask_value repr v)))"
        by (rule party_ok_dict_set) simp
      moreover have "e \<noteq> []" using Some by auto
      ultimately have "frame {''employee''} (JDict kvs) (JDict (dict_set kvs ''employee'' (JDict (dict_set e ''ssn'' (spec_mask_value repr v)))))"
        using ft sec by (intro frame_party_update[where e = e]) simp_all
      then show ?thesis using True Some sec res
        by (simp add: map_of_dict_set)
    qed
  qed
qed

lemma mask_employer_ein_tree:
  assumes ft: "field_tree (JDict kvs)"
  shows "\<exists>d'. mask_employer_ein repr (JDict kvs) = Inr d' \<and> frame {''employer''} (JDict kvs) d' \<and>
           path_lookup d' [''employer'', ''ein''] = map_option (spec_mask_value repr) (path_lookup (JDict kvs) [''employer'', ''ein''])"
proof (cases "map_of kvs ''employer''")
  case None
  then show ?thesis using ft mask_employer_ein_absent[OF None, of repr] by (simp add: frame_refl)
next
  case (Some sec)
  with ft obtain e where e: "sec = JDict e" by (cases sec) (auto simp: field_tree_def party_ok_def)
  have sec: "map_of kvs ''employer'' = Some (JDict e)" using Some e by simp
  note res = mask_employer_ein_dict[OF sec, of repr]
  show ?thesis
  proof (cases "map_of e ''ein''")
    case None
    then show ?thesis using sec ft res by (simp add: frame_refl)
  next
    case (Some v)
    show ?thesis
    proof (cases "truthy v")
      case False
      then show ?thesis using Some sec ft res
        by (simp add: frame_refl spec_mask_value_def)
    next
      case True
      have "party_ok (JDict e)" using field_tree_party[OF ft _ sec] by simp
      then have "party_ok (JDict (dict_set e ''ein'' (spec_mask_value repr v)))"
        by (rule party_ok_dict_set) simp
      moreover have "e \<noteq> []" using Some by auto
      ultimately have "frame {''employer''} (JDict kvs) (JDict (dict_set kvs ''employer'' (JDict (dict_set e ''ein'' (spec_mask_value repr v)))))"
        using ft sec by (intro frame_party_update[where e = e]) simp_all
      then show ?thesis using True Some sec res
        by (simp add: map_of_dict_set)
    qed
  qed
qed

lemma frame_dict: "frame T d d' \<Longrightarrow> \<exists>kvs'. d' = JDict kvs'"
  unfolding frame_def by blast

text \<open>
  Claim C2. On every field tree masking returns, and it rewrites \<^verbatim>\<open>employee.ssn\<close> and
  \<^verbatim>\<open>employer.ein\<close> by one and the same rule: a value that is absent stays absent (no key
  is created), an empty value stays as it is, and any other value becomes the mask of the
  specification: all characters but digits are stripped, and the result is
  \<^verbatim>\<open>***-**-\<close> with the last four digits when four digits or more remain, the fixed
  \<^verbatim>\<open>***-**-****\<close> otherwise.
\<close>

theorem mask_sensitive_data_masks:
  assumes "field_tree data"
  shows "\<exists>data'. mask_sensitive_data repr data = Inr data' \<and>
           path_lookup data' [''employee'', ''ssn''] =
             map_option (spec_mask_value repr) (path_lookup data [''employee'', ''ssn'']) \<and>
           path_lookup data' [''employer'', ''ein''] =
             map_option (spec_mask_value repr) (path_lookup data [''employer'', ''ein''])"
proof -
  from assms obtain kvs where d: "data = JDict kvs" by (cases data) (auto simp: field_tree_def)
  from mask_employee_ssn_tree[of kvs repr] assms d obtain d1 where
    s1: "mask_employee_ssn repr data = Inr d1" and f1: "frame {''employee''} data d1" and
    p1: "path_lookup d1 [''employee'', ''ssn''] = map_option (spec_mask_value repr) (path_lookup data [''employee'', ''ssn''])"
    by auto
  from frame_dict[OF f1] obtain kvs1 where d1: "d1 = JDict kvs1" by blast
  from mask_employer_ein_tree[of kvs1 repr] frame_field_tree[OF f1] d1 obtain d2 where
    s2: "mask_employer_ein repr d1 = Inr d2" and f2: "frame {''employer''} d1 d2" and
    p2: "path_lookup d2 [''employer'', ''ein''] = map_option (spec_mask_value repr) (path_lookup d1 [''employer'', ''ein''])"
    by auto
  have "path_lookup d2 [''employee'', ''ssn''] = path_lookup d1 [''employee'', ''ssn'']"
    by (rule frame_path[OF f2]) simp
  moreover have "path_lookup d1 [''employer'', ''ein''] = path_lookup data [''employer'', ''ein'']"
    by (rule frame_path[OF f1]) simp
  moreover have "mask_sensitive_data repr data = Inr d2"
    by (simp add: mask_sensitive_data_def s1 s2)
  ultimately show ?thesis using p1 p2 by simp
qed

theorem mask_sensitive_data_masks_witness:
  "\<exists>data'. mask_sensitive_data (\<lambda>v. []) test_masking = Inr data' \<and>
     path_lookup data' [''employee'', ''ssn''] = Some (JStr ''***-**-6789'') \<and>
     path_lookup data' [''employer'', ''ein''] = Some (JStr ''***-**-6789'')"
  using mask_sensitive_data_masks[of test_masking "\<lambda>v. []"]
  by (simp add: test_masking_def field_tree_def party_ok_def spec_mask_value_def spec_mask_def py_str_def)

subsection \<open>State codes\<close>

lemma lower_char_ascii:
  "lower_char (CHR ''A'') = CHR ''a''"
  "lower_char (CHR ''B'') = CHR ''b''"
  "lower_char (CHR ''C'') = CHR ''c''"
  "lower_char (CHR ''D'') = CHR ''d''"
  "lower_char (CHR ''E'') = CHR ''e''"
  "lower_char (CHR ''F'') = CHR ''f''"
  "lower_char (CHR ''G'') = CHR ''g''"
  "lower_char (CHR ''H'') = CHR ''h''"
  "lower_char (CHR ''I'') = CHR ''i''"
  "lower_char (CHR ''J'') = CHR ''j''"
  "lower_char (CHR ''K'') = CHR ''k''"
  "lower_char (CHR ''L'') = CHR ''l''"
  "lower_char (CHR ''M'') = CHR ''m''"
  "lower_char (CHR ''N'') = CHR ''n''"
  "lower_char (CHR ''O'') = CHR ''o''"
  "lower_char (CHR ''P'') = CHR ''p''"
  "lower_char (CHR ''Q'') = CHR ''q''"
  "lower_char (CHR ''R'') = CHR ''r''"
  "lower_char (CHR ''S'') = CHR ''s''"
  "lower_char (CHR ''T'') = CHR ''t''"
  "lower_char (CHR ''U'') = CHR ''u''"
  "lower_char (CHR ''V'') = CHR ''v''"
  "lower_char (CHR ''W'') = CHR ''w''"
  "lower_char (CHR ''X'') = CHR ''x''"
  "lower_char (CHR ''Y'') = CHR ''y''"
  "lower_char (CHR ''Z'') = CHR ''z''"
  "lower_char (CHR ''a'') = CHR ''a''"
  "lower_char (CHR ''b'') = CHR ''b''"
  "lower_char (CHR ''c'') = CHR ''c''"
  "lower_char (CHR ''d'') = CHR ''d''"
  "lower_char (CHR ''e'') = CHR ''e''"
  "lower_char (CHR ''f'') = CHR ''f''"
  "lower_char (CHR ''g'') = CHR ''g''"
  "lower_char (CHR ''h'') = CHR ''h''"
  "lower_char (CHR ''i'') = CHR ''i''"
  "lower_char (CHR ''j'') = CHR ''j''"
  "lower_char (CHR ''k'') = CHR ''k''"
  "lower_char (CHR ''l'') = CHR ''l''"
  "lower_char (CHR ''m'') = CHR ''m''"
  "lower_char (CHR ''n'') = CHR ''n''"
  "lower_char (CHR ''o'') = CHR ''o''"
  "lower_char (CHR ''p'') = CHR ''p''"
  "lower_char (CHR ''q'') = CHR ''q''"
  "lower_char (CHR ''r'') = CHR ''r''"
  "lower_char (CHR ''s'') = CHR ''s''"
  "lower_char (CHR ''t'') = CHR ''t''"
  "lower_char (CHR ''u'') = CHR ''u''"
  "lower_char (CHR ''v'') = CHR ''v''"
  "lower_char (CHR ''w'') = CHR ''w''"
  "lower_char (CHR ''x'') = CHR ''x''"
  "lower_char (CHR ''y'') = CHR ''y''"
  "lower_char (CHR ''z'') = CHR ''z''"
  "lower_char (CHR '' '') = CHR '' ''"
  "lower_char (CHR ''.'') = CHR ''.''"
  by (simp_all add: lower_char_def upper_chars_def lower_chars_def)

lemma is_space_lower_char: "is_space (lower_char c) = is_space c"
proof (cases "map_of (zip upper_chars lower_chars) c")
  case None
  then show ?thesis by (simp add: lower_char_def)
next
  case (Some l)
  then have "(c, l) \<in> set (zip upper_chars lower_chars)" by (rule map_of_SomeD)
  then have "\<not> is_space c \<and> \<not> is_space l"
    by (auto simp add: upper_chars_def lower_chars_def is_space_def)
  with Some show ?thesis by (simp add: lower_char_def)
qed

lemma dropWhile_space_lower: "dropWhile is_space (lower s) = lower (dropWhile is_space s)"
  by (induction s) (simp_all add: lower_def is_space_lower_char)

lemma strip_lower: "strip (lower s) = lower (strip s)"
proof -
  have r: "rev (lower t) = lower (rev t)" for t by (simp add: lower_def rev_map)
  show ?thesis
    by (simp add: strip_def dropWhile_space_lower r)
qed

lemma map_of_pairs:
  "map_of (concat (map (\<lambda>entry. [(fst entry, snd entry), (f (snd entry), snd entry)]) xs)) k =
   map_option snd (find (\<lambda>entry. k = fst entry \<or> k = f (snd entry)) xs)"
  by (induction xs) auto

lemma state_mapping_pairs:
  "state_mapping = concat (map (\<lambda>entry. [(fst entry, snd entry), (lower (snd entry), snd entry)]) us_states)"
  by (simp add: us_states_def state_mapping_def lower_def lower_char_ascii)

lemma length_us_states: "length us_states = 50"
  by (simp add: us_states_def)

lemma state_mapping_lookup: "map_of state_mapping (strip (lower s)) = spec_state_code s"
  unfolding spec_state_code_def Let_def strip_lower
  by (subst state_mapping_pairs) (rule map_of_pairs)

lemma state_mapping_empty: "map_of state_mapping [] = None"
  by (simp add: state_mapping_def)

lemma spec_normalize_state_str:
  "spec_normalize_state (JStr s) = (case map_of state_mapping (strip (lower s)) of Some code \<Rightarrow> JStr code | None \<Rightarrow> JStr s)"
  by (simp add: spec_normalize_state_def state_mapping_lookup)

lemma spec_normalize_state_other: "\<not> is_str v \<Longrightarrow> spec_normalize_state v = v"
  by (cases v) (simp_all add: spec_normalize_state_def is_str_def)

lemma spec_normalize_state_empty: "spec_normalize_state (JStr []) = JStr []"
  by (simp add: spec_normalize_state_str strip_def lower_def state_mapping_empty)

text \<open>The block on the holder of a state.\<close>

lemma normalize_state_of_dict:
  "\<exists>h'. normalize_state_of (JDict h) = Inr (JDict h') \<and> map fst h' = map fst h \<and>
        map_of h' ''state'' = map_option spec_normalize_state (map_of h ''state'') \<and>
        (\<forall>k. k \<noteq> ''state'' \<longrightarrow> map_of h' k = map_of h k)"
proof (cases "map_of h ''state''")
  case None
  then show ?thesis by (simp add: normalize_state_of_def)
next
  case (Some v)
  show ?thesis
  proof (cases "truthy v \<and> is_str v")
    case False
    then have "spec_normalize_state v = v"
      by (cases v) (auto simp add: spec_normalize_state_other is_str_def spec_normalize_state_empty)
    with False Some show ?thesis by (auto simp add: normalize_state_of_def)
  next
    case True
    then obtain s where v: "v = JStr s" by (cases v) (auto simp: is_str_def)
    show ?thesis
    proof (cases "map_of state_mapping (strip (lower s))")
      case None
      with True Some v show ?thesis
        by (simp add: normalize_state_of_def the_str_def spec_normalize_state_str)
    next
      case (Some code)
      with True \<open>map_of h ''state'' = Some v\<close> v show ?thesis
        by (simp add: normalize_state_of_def the_str_def spec_normalize_state_str map_of_dict_set keys_dict_set)
    qed
  qed
qed

lemma normalize_state_of_is_dict:
  "is_dict x \<Longrightarrow> \<exists>y. normalize_state_of x = Inr y \<and> is_dict y \<and>
      path_lookup y [''state''] = map_option spec_normalize_state (path_lookup x [''state''])"
proof -
  assume "is_dict x"
  then obtain h where x: "x = JDict h" by (cases x) (auto simp: is_dict_def)
  from normalize_state_of_dict[of h] obtain h' where
    "normalize_state_of (JDict h) = Inr (JDict h')" "map_of h' ''state'' = map_option spec_normalize_state (map_of h ''state'')"
    by blast
  then show ?thesis using x by (cases "map_of h ''state''") (auto simp add: is_dict_def)
qed

lemma normalize_address_state_tree:
  assumes ft: "field_tree (JDict kvs)" and p: "p = ''employee'' \<or> p = ''employer''"
  shows "\<exists>d'. normalize_address_state p (JDict kvs) = Inr d' \<and> frame {p} (JDict kvs) d' \<and>
           path_lookup d' [p, ''address'', ''state''] =
             map_option spec_normalize_state (path_lookup (JDict kvs) [p, ''address'', ''state''])"
proof (cases "map_of kvs p")
  case None
  then show ?thesis using ft by (simp add: normalize_address_state_def frame_refl)
next
  case (Some sec)
  have pk: "party_ok sec" using field_tree_party[OF ft p Some] .
  then obtain e where e: "sec = JDict e" by (cases sec) (auto simp: party_ok_def)
  show ?thesis
  proof (cases "map_of e ''address''")
    case None
    then show ?thesis using ft Some e by (simp add: normalize_address_state_def frame_refl)
  next
    case (Some addr)
    with pk e obtain a where a: "addr = JDict a" by (cases addr) (auto simp: party_ok_def is_dict_def)
    from normalize_state_of_dict[of a] obtain a' where
      n: "normalize_state_of (JDict a) = Inr (JDict a')" and
      st: "map_of a' ''state'' = map_option spec_normalize_state (map_of a ''state'')"
      by blast
    let ?e' = "dict_set e ''address'' (JDict a')"
    have res: "normalize_address_state p (JDict kvs) = Inr (JDict (dict_set kvs p (JDict ?e')))"
      using \<open>map_of kvs p = Some sec\<close> e Some a n by (simp add: normalize_address_state_def)
    have "party_ok (JDict ?e')" by (simp add: party_ok_def map_of_dict_set is_dict_def)
    moreover have "e \<noteq> []" using Some by auto
    ultimately have fr: "frame {p} (JDict kvs) (JDict (dict_set kvs p (JDict ?e')))"
      using ft p \<open>map_of kvs p = Some sec\<close> e by (intro frame_party_update[where e = e]) simp_all
    have "path_lookup (JDict (dict_set kvs p (JDict ?e'))) [p, ''address'', ''state''] =
          map_option spec_normalize_state (path_lookup (JDict kvs) [p, ''address'', ''state''])"
      using \<open>map_of kvs p = Some sec\<close> e Some a st
      by (cases "map_of a ''state''") (simp_all add: map_of_dict_set)
    with res fr show ?thesis by blast
  qed
qed

lemma mapE_all:
  assumes "\<forall>x \<in> set xs. \<exists>y. f x = Inr y \<and> R x y"
  shows "\<exists>ys. mapE f xs = Inr ys \<and> list_all2 R xs ys"
  using assms
proof (induction xs)
  case Nil
  then show ?case by simp
next
  case (Cons x xs)
  then obtain y where y: "f x = Inr y" "R x y" by auto
  from Cons obtain ys where ys: "mapE f xs = Inr ys" "list_all2 R xs ys" by auto
  from y ys show ?case by simp
qed

lemma for_each_state_local_tree:
  assumes ft: "field_tree (JDict kvs)"
      and body: "\<And>x. is_dict x \<Longrightarrow> \<exists>y. body x = Inr y \<and> is_dict y \<and> R x y"
  shows "\<exists>d'. for_each_state_local body (JDict kvs) = Inr d' \<and> frame {''state_local''} (JDict kvs) d' \<and>
           list_all2 R (state_local_entries (JDict kvs)) (state_local_entries d')"
proof (cases "map_of kvs ''state_local''")
  case None
  then show ?thesis using ft by (simp add: for_each_state_local_def frame_refl state_local_entries_def)
next
  case (Some l)
  with ft have "state_local_ok l" by (simp add: field_tree_def)
  then obtain xs where l: "l = JList xs" and xs: "list_all is_dict xs"
    by (cases l) (auto simp: state_local_ok_def)
  have "\<forall>x \<in> set xs. \<exists>y. body x = Inr y \<and> (is_dict y \<and> R x y)"
    using xs body by (auto simp add: list_all_iff)
  from mapE_all[OF this] obtain ys where
    ys: "mapE body xs = Inr ys" and rel: "list_all2 (\<lambda>x y. is_dict y \<and> R x y) xs ys" by blast
  let ?kvs' = "dict_set kvs ''state_local'' (JList ys)"
  have res: "for_each_state_local body (JDict kvs) = Inr (JDict ?kvs')"
    using Some l ys by (simp add: for_each_state_local_def)
  have dicts: "list_all is_dict ys"
    using rel by (auto simp add: list_all_iff list_all2_conv_all_nth in_set_conv_nth)
  have rel': "list_all2 R xs ys"
    using rel by (auto simp add: list_all2_conv_all_nth)
  have keys: "map fst ?kvs' = map fst kvs" using Some keys_dict_set[of kvs "''state_local''" "JList ys"] by simp
  have tree: "field_tree (JDict ?kvs')"
    using ft dicts by (simp add: field_tree_def map_of_dict_set state_local_ok_def)
  have other: "\<forall>k. k \<notin> {''state_local''} \<longrightarrow> map_of ?kvs' k = map_of kvs k"
    by (simp add: map_of_dict_set)
  have empty: "\<forall>k v. map_of kvs k = Some v \<and> \<not> truthy v \<longrightarrow> map_of ?kvs' k = Some v"
    using Some l rel by (auto simp add: map_of_dict_set)
  have fr: "frame {''state_local''} (JDict kvs) (JDict ?kvs')"
    unfolding frame_def
    by (rule exI[of _ kvs], rule exI[of _ ?kvs']) (use keys tree other empty in blast)
  have "list_all2 R (state_local_entries (JDict kvs)) (state_local_entries (JDict ?kvs'))"
    using Some l rel' by (simp add: state_local_entries_def map_of_dict_set)
  with res fr show ?thesis by blast
qed

lemma distinct_state_keys: "distinct (map fst state_mapping)"
  by (simp add: state_mapping_def)

lemma state_mapping_find:
  "map_of state_mapping t = map_option snd (find (\<lambda>entry. t = fst entry \<or> t = lower (snd entry)) us_states)"
  by (subst state_mapping_pairs) (rule map_of_pairs)

lemma state_mapping_match:
  assumes "entry \<in> set us_states" and "t = fst entry \<or> t = lower (snd entry)"
  shows "map_of state_mapping t = Some (snd entry)"
proof -
  have "(t, snd entry) \<in> set state_mapping"
    using assms by (subst state_mapping_pairs) auto
  then show ?thesis using distinct_state_keys by (simp add: map_of_eq_Some_iff)
qed

lemma state_mapping_no_match:
  assumes "\<forall>entry \<in> set us_states. t \<noteq> fst entry \<and> t \<noteq> lower (snd entry)"
  shows "map_of state_mapping t = None"
proof -
  have "find (\<lambda>entry. t = fst entry \<or> t = lower (snd entry)) us_states = None"
    using assms by (auto simp add: find_None_iff)
  then show ?thesis by (simp add: state_mapping_find)
qed

lemma normalize_state_of_single:
  "normalize_state_of (JDict [(''state'', JStr s)]) =
     Inr (JDict [(''state'', (case map_of state_mapping (strip (lower s)) of Some code \<Rightarrow> JStr code | None \<Rightarrow> JStr s))])"
proof (cases "s = []")
  case True
  then show ?thesis
    by (simp add: normalize_state_of_def strip_def lower_def state_mapping_empty)
next
  case False
  then show ?thesis
    by (cases "map_of state_mapping (strip (lower s))")
       (simp_all add: normalize_state_of_def is_str_def the_str_def)
qed

lemma us_states_codes: "\<forall>entry \<in> set us_states. is_state_code (snd entry)"
  by (simp add: us_states_def is_state_code_def)

lemma territories_trimmed: "map (\<lambda>t. strip (lower t)) us_territories = us_territories"
  by (simp add: us_territories_def strip_def is_space_def lower_def lower_char_ascii)

lemma territories_disjoint: "set us_territories \<inter> set (map fst state_mapping) = {}"
  by (simp add: us_territories_def state_mapping_def)

lemma territories_not_in_table:
  "\<forall>t \<in> set us_territories. map_of state_mapping (strip (lower t)) = None"
proof
  fix t assume t: "t \<in> set us_territories"
  have "map (\<lambda>t. strip (lower t)) us_territories = map (\<lambda>t. t) us_territories"
    using territories_trimmed by simp
  then have "strip (lower t) = t" using t by (simp only: map_eq_conv)
  moreover have "t \<notin> set (map fst state_mapping)" using t territories_disjoint by blast
  ultimately show "map_of state_mapping (strip (lower t)) = None"
    by (simp add: map_of_eq_None_iff)
qed

text \<open>
  Claim C4. On every field tree state normalization returns, and it rewrites
  \<^verbatim>\<open>employee.address.state\<close>, \<^verbatim>\<open>employer.address.state\<close> and the \<^verbatim>\<open>state\<close> of every entry of
  \<^verbatim>\<open>state_local\<close> by the rule of the specification: a string that, trimmed and in lower
  case, is the name or the abbreviation of one of the fifty states of the United States
  becomes the code of that state; every other string, every value that is not a string
  and a missing field stay. The fifty states are listed in \<open>us_states\<close> on their own, not
  read off the table of the source. Every code is two upper-case letters. For each of the
  fifty states every spelling of its name and of its abbreviation gives the same code; a
  string that matches no state exactly is not changed, and neither are the District of
  Columbia and the territories.
\<close>

theorem normalize_state_codes_canonical:
  assumes "field_tree data"
  shows "\<exists>data'. normalize_state_codes data = Inr data' \<and>
           path_lookup data' [''employee'', ''address'', ''state''] =
             map_option spec_normalize_state (path_lookup data [''employee'', ''address'', ''state'']) \<and>
           path_lookup data' [''employer'', ''address'', ''state''] =
             map_option spec_normalize_state (path_lookup data [''employer'', ''address'', ''state'']) \<and>
           list_all2 (\<lambda>x y. path_lookup y [''state''] = map_option spec_normalize_state (path_lookup x [''state'']))
             (state_local_entries data) (state_local_entries data') \<and>
           length us_states = 50 \<and>
           (\<forall>entry \<in> set us_states. is_state_code (snd entry)) \<and>
           (\<forall>t \<in> set us_territories.
              normalize_state_of (JDict [(''state'', JStr t)]) = Inr (JDict [(''state'', JStr t)])) \<and>
           (\<forall>entry \<in> set us_states. \<forall>s.
              lower (strip s) = fst entry \<or> lower (strip s) = lower (snd entry) \<longrightarrow>
              normalize_state_of (JDict [(''state'', JStr s)]) = Inr (JDict [(''state'', JStr (snd entry))])) \<and>
           (\<forall>s. (\<forall>entry \<in> set us_states. lower (strip s) \<noteq> fst entry \<and> lower (strip s) \<noteq> lower (snd entry)) \<longrightarrow>
              normalize_state_of (JDict [(''state'', JStr s)]) = Inr (JDict [(''state'', JStr s)]))"
proof -
  let ?R = "\<lambda>x y. path_lookup y [''state''] = map_option spec_normalize_state (path_lookup x [''state''])"
  from assms obtain kvs where d: "data = JDict kvs" by (cases data) (auto simp: field_tree_def)
  from normalize_address_state_tree[of kvs "''employee''"] assms d obtain d1 where
    s1: "normalize_address_state ''employee'' data = Inr d1" and f1: "frame {''employee''} data d1" and
    p1: "path_lookup d1 [''employee'', ''address'', ''state''] =
           map_option spec_normalize_state (path_lookup data [''employee'', ''address'', ''state''])"
    by auto
  from frame_dict[OF f1] obtain kvs1 where d1: "d1 = JDict kvs1" by blast
  from normalize_address_state_tree[of kvs1 "''employer''"] frame_field_tree[OF f1] d1 obtain d2 where
    s2: "normalize_address_state ''employer'' d1 = Inr d2" and f2: "frame {''employer''} d1 d2" and
    p2: "path_lookup d2 [''employer'', ''address'', ''state''] =
           map_option spec_normalize_state (path_lookup d1 [''employer'', ''address'', ''state''])"
    by auto
  from frame_dict[OF f2] obtain kvs2 where d2: "d2 = JDict kvs2" by blast
  have ft2: "field_tree (JDict kvs2)" using frame_field_tree[OF f2] d2 by simp
  from for_each_state_local_tree[of kvs2 normalize_state_of ?R, OF ft2] normalize_state_of_is_dict d2
  obtain d3 where
    s3: "for_each_state_local normalize_state_of d2 = Inr d3" and f3: "frame {''state_local''} d2 d3" and
    p3: "list_all2 ?R (state_local_entries d2) (state_local_entries d3)"
    by blast
  have run: "normalize_state_codes data = Inr d3"
    by (simp add: normalize_state_codes_def s1 s2 s3)
  have e3: "path_lookup d3 [''employee'', ''address'', ''state''] = path_lookup d2 [''employee'', ''address'', ''state'']"
    by (rule frame_path[OF f3]) simp
  have e2: "path_lookup d2 [''employee'', ''address'', ''state''] = path_lookup d1 [''employee'', ''address'', ''state'']"
    by (rule frame_path[OF f2]) simp
  have r3: "path_lookup d3 [''employer'', ''address'', ''state''] = path_lookup d2 [''employer'', ''address'', ''state'']"
    by (rule frame_path[OF f3]) simp
  have r1: "path_lookup d1 [''employer'', ''address'', ''state''] = path_lookup data [''employer'', ''address'', ''state'']"
    by (rule frame_path[OF f1]) simp
  have l2: "path_lookup d2 [''state_local''] = path_lookup d1 [''state_local'']"
    by (rule frame_path[OF f2]) simp
  have l1: "path_lookup d1 [''state_local''] = path_lookup data [''state_local'']"
    by (rule frame_path[OF f1]) simp
  have entries: "state_local_entries d2 = state_local_entries data"
    by (simp only: state_local_entries_def l2 l1)
  have both: "\<forall>entry \<in> set us_states. \<forall>s.
              lower (strip s) = fst entry \<or> lower (strip s) = lower (snd entry) \<longrightarrow>
              normalize_state_of (JDict [(''state'', JStr s)]) = Inr (JDict [(''state'', JStr (snd entry))])"
  proof (intro ballI allI impI)
    fix entry s
    assume "entry \<in> set us_states" and "lower (strip s) = fst entry \<or> lower (strip s) = lower (snd entry)"
    then have "map_of state_mapping (strip (lower s)) = Some (snd entry)"
      unfolding strip_lower by (intro state_mapping_match) auto
    then show "normalize_state_of (JDict [(''state'', JStr s)]) = Inr (JDict [(''state'', JStr (snd entry))])"
      by (simp add: normalize_state_of_single)
  qed
  have none: "\<forall>s. (\<forall>entry \<in> set us_states. lower (strip s) \<noteq> fst entry \<and> lower (strip s) \<noteq> lower (snd entry)) \<longrightarrow>
              normalize_state_of (JDict [(''state'', JStr s)]) = Inr (JDict [(''state'', JStr s)])"
  proof (intro allI impI)
    fix s
    assume "\<forall>entry \<in> set us_states. lower (strip s) \<noteq> fst entry \<and> lower (strip s) \<noteq> lower (snd entry)"
    then have "map_of state_mapping (strip (lower s)) = None"
      unfolding strip_lower by (rule state_mapping_no_match)
    then show "normalize_state_of (JDict [(''state'', JStr s)]) = Inr (JDict [(''state'', JStr s)])"
      by (simp add: normalize_state_of_single)
  qed
  have terr: "\<forall>t \<in> set us_territories.
              normalize_state_of (JDict [(''state'', JStr t)]) = Inr (JDict [(''state'', JStr t)])"
  proof
    fix t assume "t \<in> set us_territories"
    with territories_not_in_table have "map_of state_mapping (strip (lower t)) = None" by blast
    then show "normalize_state_of (JDict [(''state'', JStr t)]) = Inr (JDict [(''state'', JStr t)])"
      by (simp add: normalize_state_of_single)
  qed
  show ?thesis
    using run p1 p2 p3 e3 e2 r3 r1 entries length_us_states us_states_codes terr both none
    by (intro exI[of _ d3] conjI) simp_all
qed

lemma lookup_california: "spec_normalize_state (JStr ''california'') = JStr ''CA''"
  by (simp add: spec_normalize_state_str lower_def lower_char_ascii strip_def is_space_def state_mapping_def)

lemma lookup_ny: "spec_normalize_state (JStr ''ny'') = JStr ''NY''"
  by (simp add: spec_normalize_state_str lower_def lower_char_ascii strip_def is_space_def state_mapping_def)

lemma lookup_new_york: "spec_normalize_state (JStr '' New York '') = JStr ''NY''"
  by (simp add: spec_normalize_state_str lower_def lower_char_ascii strip_def is_space_def state_mapping_def)

lemma lookup_atlantis: "spec_normalize_state (JStr ''Atlantis'') = JStr ''Atlantis''"
  by (simp add: spec_normalize_state_str lower_def lower_char_ascii strip_def is_space_def state_mapping_def)

theorem normalize_state_codes_canonical_witness:
  "\<exists>data'. normalize_state_codes test_states = Inr data' \<and>
     path_lookup data' [''employee'', ''address'', ''state''] = Some (JStr ''CA'') \<and>
     path_lookup data' [''employer'', ''address'', ''state''] = Some (JStr ''NY'') \<and>
     map (\<lambda>y. path_lookup y [''state'']) (state_local_entries data') = [Some (JStr ''NY''), Some (JStr ''Atlantis'')]"
proof -
  have ft: "field_tree test_states"
    by (simp add: test_states_def field_tree_def party_ok_def is_dict_def state_local_ok_def)
  from normalize_state_codes_canonical[OF ft] obtain data' where
    r: "normalize_state_codes test_states = Inr data'" and
    e: "path_lookup data' [''employee'', ''address'', ''state''] =
          map_option spec_normalize_state (path_lookup test_states [''employee'', ''address'', ''state''])" and
    m: "path_lookup data' [''employer'', ''address'', ''state''] =
          map_option spec_normalize_state (path_lookup test_states [''employer'', ''address'', ''state''])" and
    l: "list_all2 (\<lambda>x y. path_lookup y [''state''] = map_option spec_normalize_state (path_lookup x [''state'']))
          (state_local_entries test_states) (state_local_entries data')"
    by blast
  have ents: "state_local_entries test_states = [JDict [(''state'', JStr '' New York '')], JDict [(''state'', JStr ''Atlantis'')]]"
    by (simp add: test_states_def state_local_entries_def)
  from l obtain y1 y2 where ys: "state_local_entries data' = [y1, y2]"
    and y1: "path_lookup y1 [''state''] = Some (spec_normalize_state (JStr '' New York ''))"
    and y2: "path_lookup y2 [''state''] = Some (spec_normalize_state (JStr ''Atlantis''))"
    unfolding ents by (auto simp add: list_all2_Cons1)
  have "path_lookup data' [''employee'', ''address'', ''state''] = Some (JStr ''CA'')"
    using e by (simp add: test_states_def lookup_california)
  moreover have "path_lookup data' [''employer'', ''address'', ''state''] = Some (JStr ''NY'')"
    using m by (simp add: test_states_def lookup_ny)
  moreover have "map (\<lambda>y. path_lookup y [''state'']) (state_local_entries data') = [Some (JStr ''NY''), Some (JStr ''Atlantis'')]"
    using ys y1 y2 by (simp add: lookup_new_york lookup_atlantis)
  ultimately show ?thesis using r by (intro exI[of _ data']) simp
qed

subsection \<open>Numeric fields\<close>

lemma if_Inl: "(if c then Inr a else Inl b) = Inl e \<Longrightarrow> e = b"
  by (cases c) auto

lemma py_float_error: "py_float s = Inl e \<Longrightarrow> is_value_or_type_error e"
  unfolding py_float_def Let_def by (drule if_Inl) (simp add: is_value_or_type_error_def)

lemma filter_numeric: "sub_nonnumeric s = filter (\<lambda>c. c \<in> set ''0123456789.-'') s"
  unfolding sub_nonnumeric_def by (rule filter_cong) (auto simp add: is_digit_def)

lemma claimed_convert_str:
  "claimed_convert (JStr s) =
     (if sub_nonnumeric s \<noteq> [] \<and> sub_nonnumeric s \<noteq> ''-''
      then (case py_float (sub_nonnumeric s) of Inr x \<Rightarrow> JFloat x | Inl e \<Rightarrow> JNull)
      else JNull)"
  unfolding claimed_convert_def filter_numeric Let_def by simp

lemma convert_try_str:
  "map_of h f = Some (JStr s) \<Longrightarrow>
   convert_try (JDict h) f =
     (if sub_nonnumeric s \<noteq> [] \<and> sub_nonnumeric s \<noteq> ''-''
      then bindE (py_float (sub_nonnumeric s)) (\<lambda>x. Inr (JDict (dict_set h f (JFloat x))))
      else Inr (JDict (dict_set h f JNull)))"
  by (simp add: convert_try_def is_str_def the_str_def Let_def)

lemma convert_field_dict:
  "\<exists>h'. convert_field (JDict h) f = Inr (JDict h') \<and> map fst h' = map fst h \<and>
        map_of h' f = map_option spec_convert (map_of h f) \<and>
        (\<forall>k. k \<noteq> f \<longrightarrow> map_of h' k = map_of h k)"
proof (cases "map_of h f")
  case None
  then show ?thesis by (simp add: convert_field_def)
next
  case (Some v)
  show ?thesis
  proof (cases "truthy v")
    case False
    with Some show ?thesis by (simp add: convert_field_def spec_convert_def)
  next
    case True
    show ?thesis
    proof (cases v)
      case (JStr s)
      note t = convert_try_str[of h f s] claimed_convert_str[of s]
      show ?thesis
      proof (cases "sub_nonnumeric s \<noteq> [] \<and> sub_nonnumeric s \<noteq> ''-''")
        case False
        then have "convert_try (JDict h) f = Inr (JDict (dict_set h f JNull))"
          using Some JStr t by auto
        moreover have "spec_convert v = JNull"
          using False True JStr t by (auto simp add: spec_convert_def)
        ultimately show ?thesis using Some True
          by (simp add: convert_field_def map_of_dict_set keys_dict_set)
      next
        case ok: True
        show ?thesis
        proof (cases "py_float (sub_nonnumeric s)")
          case (Inl e)
          then have "convert_try (JDict h) f = Inl e"
            using Some JStr ok t by simp
          moreover have "spec_convert v = JNull"
            using ok True JStr Inl t by (simp add: spec_convert_def)
          ultimately show ?thesis using Some True py_float_error[OF Inl]
            by (simp add: convert_field_def map_of_dict_set keys_dict_set)
        next
          case (Inr x)
          then have "convert_try (JDict h) f = Inr (JDict (dict_set h f (JFloat x)))"
            using Some JStr ok t by simp
          moreover have "spec_convert v = JFloat x"
            using ok True JStr Inr t by (simp add: spec_convert_def)
          ultimately show ?thesis using Some True
            by (simp add: convert_field_def map_of_dict_set keys_dict_set)
        qed
      qed
    qed (use Some True in \<open>simp_all add: convert_field_def convert_try_def is_str_def spec_convert_def claimed_convert_def\<close>)
  qed
qed

lemma convert_fields_dict:
  "distinct fs \<Longrightarrow>
   \<exists>h'. convert_fields (JDict h) fs = Inr (JDict h') \<and> map fst h' = map fst h \<and>
        (\<forall>k. map_of h' k = (if k \<in> set fs then map_option spec_convert (map_of h k) else map_of h k))"
proof (induction fs arbitrary: h)
  case Nil
  then show ?case by simp
next
  case (Cons f fs)
  from convert_field_dict[of h f] obtain h1 where
    s1: "convert_field (JDict h) f = Inr (JDict h1)" and k1: "map fst h1 = map fst h" and
    v1: "map_of h1 f = map_option spec_convert (map_of h f)" and
    o1: "\<forall>k. k \<noteq> f \<longrightarrow> map_of h1 k = map_of h k"
    by blast
  from Cons.prems have "distinct fs" and nf: "f \<notin> set fs" by auto
  from Cons.IH[OF this(1), of h1] obtain h' where
    s2: "convert_fields (JDict h1) fs = Inr (JDict h')" and k2: "map fst h' = map fst h1" and
    v2: "\<forall>k. map_of h' k = (if k \<in> set fs then map_option spec_convert (map_of h1 k) else map_of h1 k)"
    by blast
  have "convert_fields (JDict h) (f # fs) = Inr (JDict h')" using s1 s2 by simp
  moreover have "map fst h' = map fst h" using k1 k2 by simp
  moreover have "\<forall>k. map_of h' k = (if k \<in> set (f # fs) then map_option spec_convert (map_of h k) else map_of h k)"
    using v1 o1 v2 nf by auto
  ultimately show ?case by blast
qed

lemma map_fst_Nil: "map fst h' = map fst [] \<Longrightarrow> h' = []"
  by simp

lemma convert_federal_tree:
  assumes ft: "field_tree (JDict kvs)"
  shows "\<exists>d'. convert_federal (JDict kvs) = Inr d' \<and> frame {''federal''} (JDict kvs) d' \<and>
           (\<forall>f \<in> set monetary_fields. path_lookup d' [''federal'', f] =
              map_option spec_convert (path_lookup (JDict kvs) [''federal'', f]))"
proof (cases "map_of kvs ''federal''")
  case None
  then show ?thesis using ft by (simp add: convert_federal_def frame_refl)
next
  case (Some fed)
  with ft have "is_dict fed" by (simp add: field_tree_def)
  then obtain h where fed: "fed = JDict h" by (cases fed) (auto simp: is_dict_def)
  have "distinct monetary_fields" by (simp add: monetary_fields_def)
  from convert_fields_dict[OF this, of h] obtain h' where
    c: "convert_fields (JDict h) monetary_fields = Inr (JDict h')" and k: "map fst h' = map fst h" and
    v: "\<forall>k. map_of h' k = (if k \<in> set monetary_fields then map_option spec_convert (map_of h k) else map_of h k)"
    by blast
  let ?kvs' = "dict_set kvs ''federal'' (JDict h')"
  have res: "convert_federal (JDict kvs) = Inr (JDict ?kvs')"
    using Some fed c by (simp add: convert_federal_def)
  have keys: "map fst ?kvs' = map fst kvs" using Some keys_dict_set[of kvs "''federal''" "JDict h'"] by simp
  have tree: "field_tree (JDict ?kvs')"
    using ft by (simp add: field_tree_def map_of_dict_set is_dict_def)
  have other: "\<forall>k. k \<notin> {''federal''} \<longrightarrow> map_of ?kvs' k = map_of kvs k"
    by (simp add: map_of_dict_set)
  have empty: "\<forall>k v. map_of kvs k = Some v \<and> \<not> truthy v \<longrightarrow> map_of ?kvs' k = Some v"
    using Some fed k by (auto simp add: map_of_dict_set)
  have fr: "frame {''federal''} (JDict kvs) (JDict ?kvs')"
    unfolding frame_def
    by (rule exI[of _ kvs], rule exI[of _ ?kvs']) (use keys tree other empty in blast)
  have "\<forall>f \<in> set monetary_fields. path_lookup (JDict ?kvs') [''federal'', f] =
              map_option spec_convert (path_lookup (JDict kvs) [''federal'', f])"
  proof
    fix f assume "f \<in> set monetary_fields"
    with v have "map_of h' f = map_option spec_convert (map_of h f)" by simp
    then show "path_lookup (JDict ?kvs') [''federal'', f] = map_option spec_convert (path_lookup (JDict kvs) [''federal'', f])"
      using Some fed by (cases "map_of h f") (simp_all add: map_of_dict_set)
  qed
  with res fr show ?thesis by blast
qed

lemma convert_state_entry:
  assumes "is_dict x"
  shows "\<exists>y. convert_fields x state_monetary_fields = Inr y \<and> is_dict y \<and>
           (\<forall>f \<in> set state_monetary_fields. path_lookup y [f] = map_option spec_convert (path_lookup x [f]))"
proof -
  from assms obtain h where x: "x = JDict h" by (cases x) (auto simp: is_dict_def)
  have "distinct state_monetary_fields" by (simp add: state_monetary_fields_def)
  from convert_fields_dict[OF this, of h] obtain h' where
    c: "convert_fields (JDict h) state_monetary_fields = Inr (JDict h')" and
    v: "\<forall>k. map_of h' k = (if k \<in> set state_monetary_fields then map_option spec_convert (map_of h k) else map_of h k)"
    by blast
  have "\<forall>f \<in> set state_monetary_fields. path_lookup (JDict h') [f] = map_option spec_convert (path_lookup (JDict h) [f])"
  proof
    fix f assume "f \<in> set state_monetary_fields"
    with v have "map_of h' f = map_option spec_convert (map_of h f)" by simp
    then show "path_lookup (JDict h') [f] = map_option spec_convert (path_lookup (JDict h) [f])"
      by (cases "map_of h f") simp_all
  qed
  with c x show ?thesis by (auto simp add: is_dict_def)
qed





lemma spec_convert_words: "spec_convert (JStr ''N/A'') = JNull"
  by (simp add: spec_convert_def claimed_convert_str sub_nonnumeric_def is_digit_def)





lemma convert_field_skip:
  "map_of h f = None \<Longrightarrow> convert_field (JDict h) f = Inr (JDict h)"
  by (simp add: convert_field_def)


subsection \<open>The quality report\<close>

lemma py_eq_null: "py_eq v JNull = (v = JNull)"
  by (cases v) auto

lemma py_eq_empty: "py_eq v (JStr []) = (v = JStr [])"
  by (cases v) auto

lemma check_path_spec: "check_path v parts = Inr b \<Longrightarrow> b = spec_present v parts"
proof (induction parts arbitrary: v)
  case Nil
  then show ?case by simp
next
  case (Cons part parts)
  show ?case
  proof (cases v)
    case (JDict kvs)
    show ?thesis
    proof (cases "map_of kvs part")
      case None
      with Cons.prems JDict show ?thesis by simp
    next
      case (Some x)
      show ?thesis
      proof (cases "x = JNull \<or> x = JStr []")
        case True
        with Cons.prems JDict Some show ?thesis by (auto simp add: py_eq_null py_eq_empty)
      next
        case False
        with Cons.prems JDict Some have "check_path x parts = Inr b"
          by (simp add: py_eq_null py_eq_empty)
        from Cons.IH[OF this] False JDict Some show ?thesis by simp
      qed
    qed
  next
    case (JStr s)
    with Cons.prems show ?thesis by (cases "is_substring part s") auto
  next
    case (JList xs)
    with Cons.prems show ?thesis by (cases "JStr part \<in> set xs") auto
  qed (use Cons.prems in simp_all)
qed

lemma missing_paths_spec:
  "missing_paths data fps = Inr missing \<Longrightarrow>
   missing = filter (\<lambda>fp. \<not> spec_present data (split_on (CHR ''.'') fp)) fps"
proof (induction fps arbitrary: missing)
  case Nil
  then show ?case by simp
next
  case (Cons fp fps)
  from Cons.prems obtain found where f: "check_path data (split_on (CHR ''.'') fp) = Inr found"
    by (cases "check_path data (split_on (CHR ''.'') fp)") auto
  with Cons.prems obtain rest where r: "missing_paths data fps = Inr rest"
    by (cases "missing_paths data fps") auto
  from Cons.prems f r have m: "missing = (if found then rest else fp # rest)" by simp
  from check_path_spec[OF f] Cons.IH[OF r] m show ?case by simp
qed

lemma split_critical:
  "map (split_on (CHR ''.'')) critical_fields =
     [[''employee'', ''name''], [''employee'', ''ssn''], [''federal'', ''wages_tips''],
      [''federal'', ''federal_income_tax'']]"
  by (simp add: critical_fields_def)

text \<open>The report, when there is one, written out.\<close>

lemma generate_quality_report_Inr:
  assumes "generate_quality_report data text method = Inr q"
  obtains missing federal inconsistent where
    "missing_paths data critical_fields = Inr missing"
    "py_get data ''federal'' (JDict []) = Inr federal"
    "wages_inconsistent federal = Inr inconsistent"
    "q = JDict [(''confidence'', JStr (snd (snd (text_check (length (strip text)) (missing_check missing ([], ''high'')))))),
                (''warnings'', JList (map JStr (consistency_check inconsistent
                   (fst (text_check (length (strip text)) (missing_check missing ([], ''high''))))))),
                (''text_quality'', JStr (fst (snd (text_check (length (strip text)) (missing_check missing ([], ''high'')))))),
                (''extraction_method'', JStr method),
                (''text_length'', JInt (int (length (strip text)))),
                (''critical_fields_missing'', JInt (int (length missing)))]"
proof -
  from assms obtain missing where m: "missing_paths data critical_fields = Inr missing"
    by (cases "missing_paths data critical_fields") (auto simp add: generate_quality_report_def)
  from assms m obtain federal where f: "py_get data ''federal'' (JDict []) = Inr federal"
    by (cases "py_get data ''federal'' (JDict [])") (auto simp add: generate_quality_report_def Let_def)
  from assms m f obtain inconsistent where i: "wages_inconsistent federal = Inr inconsistent"
    by (cases "wages_inconsistent federal") (auto simp add: generate_quality_report_def Let_def)
  from assms m f i have "q = JDict [(''confidence'', JStr (snd (snd (text_check (length (strip text)) (missing_check missing ([], ''high'')))))),
                (''warnings'', JList (map JStr (consistency_check inconsistent
                   (fst (text_check (length (strip text)) (missing_check missing ([], ''high''))))))),
                (''text_quality'', JStr (fst (snd (text_check (length (strip text)) (missing_check missing ([], ''high'')))))),
                (''extraction_method'', JStr method),
                (''text_length'', JInt (int (length (strip text)))),
                (''critical_fields_missing'', JInt (int (length missing)))]"
    by (simp add: generate_quality_report_def Let_def)
  with m f i show ?thesis by (rule that)
qed

lemma text_check_cases:
  "n < 50 \<Longrightarrow> text_check n wc = (fst wc @ [low_text_warning], ''poor'', ''low'')"
  "50 \<le> n \<Longrightarrow> n < 200 \<Longrightarrow> text_check n wc = (fst wc, ''fair'', if snd wc \<noteq> ''low'' then ''medium'' else snd wc)"
  "200 \<le> n \<Longrightarrow> text_check n wc = (fst wc, ''good'', snd wc)"
  by (simp_all add: text_check_def low_text_warning_def)

lemma missing_check_cases:
  "missing \<noteq> [] \<Longrightarrow> missing_check missing wc = (fst wc @ [''Missing critical fields: '' @ join_strs '', '' missing], ''medium'')"
  "missing_check [] wc = wc"
  by (simp_all add: missing_check_def)

lemma tier_rank_values: "tier_rank ''high'' = 2" "tier_rank ''medium'' = 1" "tier_rank ''low'' = 0"
  by (simp_all add: tier_rank_def)


lemmas quality_eval =
  generate_quality_report_def critical_fields_def missing_check_def text_check_def
  wages_inconsistent_def consistency_check_def strip_def is_space_def ten_chars_def

lemma report_two_missing:
  "generate_quality_report test_two_missing ten_chars ''ocr'' =
     Inr (JDict [(''confidence'', JStr ''low''),
                 (''warnings'', JList [JStr ''Missing critical fields: employee.ssn, federal.wages_tips'',
                                       JStr ''Low text extraction - possible OCR issues'']),
                 (''text_quality'', JStr ''poor''),
                 (''extraction_method'', JStr ''ocr''),
                 (''text_length'', JInt 10),
                 (''critical_fields_missing'', JInt 2)])"
  by (simp add: quality_eval test_two_missing_def)

lemma report_zero_wages:
  "generate_quality_report test_zero_wages ten_chars ''ocr'' =
     Inr (JDict [(''confidence'', JStr ''low''),
                 (''warnings'', JList [JStr ''Missing critical fields: employee.name, employee.ssn, federal.federal_income_tax'',
                                       JStr ''Low text extraction - possible OCR issues'']),
                 (''text_quality'', JStr ''poor''),
                 (''extraction_method'', JStr ''ocr''),
                 (''text_length'', JInt 10),
                 (''critical_fields_missing'', JInt 3)])"
  by (simp add: quality_eval test_zero_wages_def)

lemma report_excess_wages:
  "generate_quality_report test_excess_wages ten_chars ''ocr'' =
     Inr (JDict [(''confidence'', JStr ''low''),
                 (''warnings'', JList [JStr ''Missing critical fields: employee.name, employee.ssn, federal.federal_income_tax'',
                                       JStr ''Low text extraction - possible OCR issues'',
                                       JStr ''Social Security wages exceed Box 1 wages - possible data inconsistency'']),
                 (''text_quality'', JStr ''poor''),
                 (''extraction_method'', JStr ''ocr''),
                 (''text_length'', JInt 10),
                 (''critical_fields_missing'', JInt 3)])"
  by (simp add: quality_eval test_excess_wages_def)


lemma missing_prefix:
  "take 24 (''Missing critical fields: '' @ x) = ''Missing critical fields:''"
  "take 24 low_text_warning \<noteq> ''Missing critical fields:''"
  "take 24 inconsistency_warning \<noteq> ''Missing critical fields:''"
  by (simp_all add: low_text_warning_def inconsistency_warning_def)

lemma warnings_missing_part:
  "filter (\<lambda>w. take 24 w = ''Missing critical fields:'')
     (consistency_check inconsistent (fst (text_check n (missing_check missing ([], ''high''))))) =
   (if missing = [] then [] else [''Missing critical fields: '' @ join_strs '', '' missing])"
  using missing_prefix
  by (cases "missing = []"; cases "n < 50"; cases "n < 200"; cases inconsistent)
     (simp_all add: consistency_check_def text_check_def missing_check_def low_text_warning_def[symmetric]
                    inconsistency_warning_def[symmetric])

text \<open>
  Claim C6. The report checks the four paths \<^verbatim>\<open>employee.name\<close>, \<^verbatim>\<open>employee.ssn\<close>,
  \<^verbatim>\<open>federal.wages_tips\<close> and \<^verbatim>\<open>federal.federal_income_tax\<close>; the paths it counts as missing
  are exactly those with a segment that is absent or whose value is null or the empty
  string. \<^verbatim>\<open>critical_fields_missing\<close> is their number; when there is one, exactly one
  warning names them all and the confidence is \<^verbatim>\<open>medium\<close> or lower; when
  \<^verbatim>\<open>employee.ssn\<close> and \<^verbatim>\<open>federal.wages_tips\<close> are the missing ones the number is 2.
\<close>

theorem quality_missing_critical_fields:
  assumes "generate_quality_report data text method = Inr q"
  shows "map (split_on (CHR ''.'')) critical_fields =
           [[''employee'', ''name''], [''employee'', ''ssn''], [''federal'', ''wages_tips''],
            [''federal'', ''federal_income_tax'']] \<and>
         (let missing = filter (\<lambda>fp. \<not> spec_present data (split_on (CHR ''.'') fp)) critical_fields in
            missing_paths data critical_fields = Inr missing \<and>
            path_lookup q [''critical_fields_missing''] = Some (JInt (int (length missing))) \<and>
            (\<exists>warnings. path_lookup q [''warnings''] = Some (JList (map JStr warnings)) \<and>
               filter (\<lambda>w. take 24 w = ''Missing critical fields:'') warnings =
                 (if missing = [] then [] else [''Missing critical fields: '' @ join_strs '', '' missing])) \<and>
            (missing \<noteq> [] \<longrightarrow>
               (\<exists>c. path_lookup q [''confidence''] = Some (JStr c) \<and> tier_rank c \<le> tier_rank ''medium'')) \<and>
            (spec_present data [''employee'', ''name''] \<and> \<not> spec_present data [''employee'', ''ssn''] \<and>
             \<not> spec_present data [''federal'', ''wages_tips''] \<and>
             spec_present data [''federal'', ''federal_income_tax''] \<longrightarrow>
               missing = [''employee.ssn'', ''federal.wages_tips''] \<and>
               path_lookup q [''critical_fields_missing''] = Some (JInt 2)))"
proof -
  from assms obtain missing federal inconsistent where
    m: "missing_paths data critical_fields = Inr missing" and
    q: "q = JDict [(''confidence'', JStr (snd (snd (text_check (length (strip text)) (missing_check missing ([], ''high'')))))),
                (''warnings'', JList (map JStr (consistency_check inconsistent
                   (fst (text_check (length (strip text)) (missing_check missing ([], ''high''))))))),
                (''text_quality'', JStr (fst (snd (text_check (length (strip text)) (missing_check missing ([], ''high'')))))),
                (''extraction_method'', JStr method),
                (''text_length'', JInt (int (length (strip text)))),
                (''critical_fields_missing'', JInt (int (length missing)))]"
    by (rule generate_quality_report_Inr)
  let ?n = "length (strip text)"
  let ?ws = "consistency_check inconsistent (fst (text_check ?n (missing_check missing ([], ''high''))))"
  let ?missing = "filter (\<lambda>fp. \<not> spec_present data (split_on (CHR ''.'') fp)) critical_fields"
  have eq: "missing = ?missing" using missing_paths_spec[OF m] .
  have cnt: "path_lookup q [''critical_fields_missing''] = Some (JInt (int (length missing)))"
    by (simp add: q)
  have w: "path_lookup q [''warnings''] = Some (JList (map JStr ?ws))" by (simp add: q)
  have conf: "missing \<noteq> [] \<longrightarrow>
      (\<exists>c. path_lookup q [''confidence''] = Some (JStr c) \<and> tier_rank c \<le> tier_rank ''medium'')"
    by (cases "?n < 50"; cases "?n < 200")
       (simp_all add: q text_check_def missing_check_def tier_rank_def)
  have two: "spec_present data [''employee'', ''name''] \<and> \<not> spec_present data [''employee'', ''ssn''] \<and>
             \<not> spec_present data [''federal'', ''wages_tips''] \<and>
             spec_present data [''federal'', ''federal_income_tax''] \<longrightarrow>
               ?missing = [''employee.ssn'', ''federal.wages_tips'']"
    by (simp add: critical_fields_def)
  have ws: "\<exists>warnings. path_lookup q [''warnings''] = Some (JList (map JStr warnings)) \<and>
               filter (\<lambda>w. take 24 w = ''Missing critical fields:'') warnings =
                 (if missing = [] then [] else [''Missing critical fields: '' @ join_strs '', '' missing])"
    using w warnings_missing_part[of inconsistent ?n missing] by blast
  have two': "spec_present data [''employee'', ''name''] \<and> \<not> spec_present data [''employee'', ''ssn''] \<and>
             \<not> spec_present data [''federal'', ''wages_tips''] \<and>
             spec_present data [''federal'', ''federal_income_tax''] \<longrightarrow>
               missing = [''employee.ssn'', ''federal.wages_tips''] \<and>
               path_lookup q [''critical_fields_missing''] = Some (JInt 2)"
  proof
    assume "spec_present data [''employee'', ''name''] \<and> \<not> spec_present data [''employee'', ''ssn''] \<and>
             \<not> spec_present data [''federal'', ''wages_tips''] \<and>
             spec_present data [''federal'', ''federal_income_tax'']"
    with two eq have t: "missing = [''employee.ssn'', ''federal.wages_tips'']" by simp
    with cnt have "path_lookup q [''critical_fields_missing''] = Some (JInt 2)" by simp
    with t show "missing = [''employee.ssn'', ''federal.wages_tips''] \<and>
               path_lookup q [''critical_fields_missing''] = Some (JInt 2)" by blast
  qed
  show ?thesis
    unfolding Let_def eq[symmetric]
    using split_critical m cnt ws conf two' by blast
qed

theorem quality_missing_critical_fields_witness:
  "\<exists>q. generate_quality_report test_two_missing ten_chars ''ocr'' = Inr q \<and>
        path_lookup q [''critical_fields_missing''] = Some (JInt 2) \<and>
        spec_present test_two_missing [''employee'', ''name''] \<and>
        \<not> spec_present test_two_missing [''employee'', ''ssn'']"
proof -
  note r = report_two_missing
  have p: "spec_present test_two_missing [''employee'', ''name''] \<and> \<not> spec_present test_two_missing [''employee'', ''ssn''] \<and>
             \<not> spec_present test_two_missing [''federal'', ''wages_tips''] \<and>
             spec_present test_two_missing [''federal'', ''federal_income_tax'']"
    by (simp add: test_two_missing_def)
  from quality_missing_critical_fields[OF r] p
  have "path_lookup (JDict [(''confidence'', JStr ''low''),
                 (''warnings'', JList [JStr ''Missing critical fields: employee.ssn, federal.wages_tips'',
                                       JStr ''Low text extraction - possible OCR issues'']),
                 (''text_quality'', JStr ''poor''),
                 (''extraction_method'', JStr ''ocr''),
                 (''text_length'', JInt 10),
                 (''critical_fields_missing'', JInt 2)]) [''critical_fields_missing''] = Some (JInt 2)"
    unfolding Let_def by blast
  with r p show ?thesis by blast
qed

lemma py_get_dict:
  "py_get data k dflt = Inr v \<Longrightarrow> \<exists>kvs. data = JDict kvs \<and> v = (case map_of kvs k of None \<Rightarrow> dflt | Some x \<Rightarrow> x)"
  by (cases data) auto

lemma truthy_number: "num_val v = Some x \<Longrightarrow> truthy v = (x \<noteq> 0)"
  by (cases v) (auto split: if_splits)

lemma py_gt_numbers: "num_val s = Some x \<Longrightarrow> num_val w = Some y \<Longrightarrow> py_gt s w = Inr (y < x)"
  by (cases s) (auto split: if_splits)

lemma wages_inconsistent_dict:
  "wages_inconsistent (JDict fed) = Inr inc \<Longrightarrow>
   inc = (\<exists>w s. map_of fed ''wages_tips'' = Some w \<and> map_of fed ''social_security_wages'' = Some s \<and>
                truthy w \<and> truthy s \<and> py_gt s w = Inr True)"
proof (cases "map_of fed ''wages_tips''")
  case None
  assume "wages_inconsistent (JDict fed) = Inr inc"
  with None show ?thesis by (simp add: wages_inconsistent_def)
next
  case w: (Some w)
  assume a: "wages_inconsistent (JDict fed) = Inr inc"
  show ?thesis
  proof (cases "truthy w")
    case False
    with a w show ?thesis by (simp add: wages_inconsistent_def)
  next
    case tw: True
    show ?thesis
    proof (cases "map_of fed ''social_security_wages''")
      case None
      with a w tw show ?thesis by (simp add: wages_inconsistent_def)
    next
      case s: (Some s)
      show ?thesis
      proof (cases "truthy s")
        case False
        with a w tw s show ?thesis by (simp add: wages_inconsistent_def)
      next
        case True
        with a w tw s have "py_gt s w = Inr inc" by (simp add: wages_inconsistent_def)
        with w tw s True show ?thesis by auto
      qed
    qed
  qed
qed

lemma wages_inconsistent_is_dict: "wages_inconsistent federal = Inr inc \<Longrightarrow> \<exists>fed. federal = JDict fed"
  by (cases federal) (simp_all add: wages_inconsistent_def)

lemma inconsistency_in_warnings:
  "inconsistency_warning \<in> set (consistency_check inconsistent (fst (text_check n (missing_check missing ([], ''high''))))) = inconsistent"
proof -
  have d: "inconsistency_warning \<noteq> low_text_warning"
    "\<And>x. inconsistency_warning \<noteq> ''Missing critical fields: '' @ x"
    by (simp_all add: low_text_warning_def inconsistency_warning_def)
  show ?thesis
    using d
    by (cases "missing = []"; cases "n < 50"; cases "n < 200"; cases inconsistent)
       (simp_all add: consistency_check_def text_check_def missing_check_def low_text_warning_def[symmetric]
                      inconsistency_warning_def[symmetric])
qed

text \<open>
  Claim C7, as amended. The inconsistency warning is in the warnings exactly when
  \<^verbatim>\<open>federal.wages_tips\<close> and \<^verbatim>\<open>federal.social_security_wages\<close> are both present with a value
  that is not empty (not null, not the empty string, not 0) and the Social Security wages
  are greater than the wages; for two numbers that is: both are not 0 and the second is
  the greater. The check leaves the confidence as the first two checks set it.
\<close>

theorem quality_consistency_check:
  assumes "generate_quality_report data text method = Inr q"
  shows "\<exists>missing warnings.
           missing_paths data critical_fields = Inr missing \<and>
           path_lookup q [''warnings''] = Some (JList (map JStr warnings)) \<and>
           (inconsistency_warning \<in> set warnings \<longleftrightarrow>
              (\<exists>w s. path_lookup data [''federal'', ''wages_tips''] = Some w \<and>
                     path_lookup data [''federal'', ''social_security_wages''] = Some s \<and>
                     truthy w \<and> truthy s \<and> py_gt s w = Inr True)) \<and>
           (\<forall>w s x y. path_lookup data [''federal'', ''wages_tips''] = Some w \<and>
                      path_lookup data [''federal'', ''social_security_wages''] = Some s \<and>
                      num_val w = Some y \<and> num_val s = Some x \<longrightarrow>
                      (inconsistency_warning \<in> set warnings \<longleftrightarrow> x \<noteq> 0 \<and> y \<noteq> 0 \<and> y < x)) \<and>
           path_lookup q [''confidence''] =
             Some (JStr (snd (snd (text_check (length (strip text)) (missing_check missing ([], ''high''))))))"
proof -
  from assms obtain missing federal inconsistent where
    m: "missing_paths data critical_fields = Inr missing" and
    g: "py_get data ''federal'' (JDict []) = Inr federal" and
    wi: "wages_inconsistent federal = Inr inconsistent" and
    q: "q = JDict [(''confidence'', JStr (snd (snd (text_check (length (strip text)) (missing_check missing ([], ''high'')))))),
                (''warnings'', JList (map JStr (consistency_check inconsistent
                   (fst (text_check (length (strip text)) (missing_check missing ([], ''high''))))))),
                (''text_quality'', JStr (fst (snd (text_check (length (strip text)) (missing_check missing ([], ''high'')))))),
                (''extraction_method'', JStr method),
                (''text_length'', JInt (int (length (strip text)))),
                (''critical_fields_missing'', JInt (int (length missing)))]"
    by (rule generate_quality_report_Inr)
  let ?n = "length (strip text)"
  let ?ws = "consistency_check inconsistent (fst (text_check ?n (missing_check missing ([], ''high''))))"
  from py_get_dict[OF g] obtain kvs where
    d: "data = JDict kvs" and fv: "federal = (case map_of kvs ''federal'' of None \<Rightarrow> JDict [] | Some x \<Rightarrow> x)"
    by blast
  from wages_inconsistent_is_dict[OF wi] obtain fed where fed: "federal = JDict fed" by blast
  have look: "path_lookup data [''federal'', k] = map_of fed k" for k
    using d fv fed by (cases "map_of kvs ''federal''"; cases "map_of fed k") auto
  have inc: "inconsistent = (\<exists>w s. path_lookup data [''federal'', ''wages_tips''] = Some w \<and>
                     path_lookup data [''federal'', ''social_security_wages''] = Some s \<and>
                     truthy w \<and> truthy s \<and> py_gt s w = Inr True)"
    using wages_inconsistent_dict[of fed inconsistent] wi fed by (simp only: look)
  have w: "path_lookup q [''warnings''] = Some (JList (map JStr ?ws))" by (simp add: q)
  have c: "path_lookup q [''confidence''] =
             Some (JStr (snd (snd (text_check ?n (missing_check missing ([], ''high''))))))"
    by (simp add: q)
  have iff: "inconsistency_warning \<in> set ?ws \<longleftrightarrow>
              (\<exists>w s. path_lookup data [''federal'', ''wages_tips''] = Some w \<and>
                     path_lookup data [''federal'', ''social_security_wages''] = Some s \<and>
                     truthy w \<and> truthy s \<and> py_gt s w = Inr True)"
    using inc by (simp only: inconsistency_in_warnings)
  have num: "\<forall>w s x y. path_lookup data [''federal'', ''wages_tips''] = Some w \<and>
                      path_lookup data [''federal'', ''social_security_wages''] = Some s \<and>
                      num_val w = Some y \<and> num_val s = Some x \<longrightarrow>
                      (inconsistency_warning \<in> set ?ws \<longleftrightarrow> x \<noteq> 0 \<and> y \<noteq> 0 \<and> y < x)"
  proof (intro allI impI)
    fix w s x y
    assume a: "path_lookup data [''federal'', ''wages_tips''] = Some w \<and>
               path_lookup data [''federal'', ''social_security_wages''] = Some s \<and>
               num_val w = Some y \<and> num_val s = Some x"
    then have "truthy w = (y \<noteq> 0)" "truthy s = (x \<noteq> 0)" "py_gt s w = Inr (y < x)"
      by (simp_all add: truthy_number py_gt_numbers)
    with a iff show "inconsistency_warning \<in> set ?ws \<longleftrightarrow> x \<noteq> 0 \<and> y \<noteq> 0 \<and> y < x" by auto
  qed
  show ?thesis
    by (rule exI[of _ missing], rule exI[of _ ?ws]) (use m w iff num c in blast)
qed

theorem quality_consistency_check_witness:
  "\<exists>q warnings. generate_quality_report test_excess_wages ten_chars ''ocr'' = Inr q \<and>
        path_lookup q [''warnings''] = Some (JList (map JStr warnings)) \<and>
        inconsistency_warning \<in> set warnings \<and>
        path_lookup q [''confidence''] = Some (JStr ''low'')"
proof -
  note r = report_excess_wages
  from quality_consistency_check[OF r] obtain missing warnings where
    w: "path_lookup (JDict [(''confidence'', JStr ''low''),
                 (''warnings'', JList [JStr ''Missing critical fields: employee.name, employee.ssn, federal.federal_income_tax'',
                                       JStr ''Low text extraction - possible OCR issues'',
                                       JStr ''Social Security wages exceed Box 1 wages - possible data inconsistency'']),
                 (''text_quality'', JStr ''poor''),
                 (''extraction_method'', JStr ''ocr''),
                 (''text_length'', JInt 10),
                 (''critical_fields_missing'', JInt 3)]) [''warnings''] = Some (JList (map JStr warnings))" and
    n: "\<forall>w s x y. path_lookup test_excess_wages [''federal'', ''wages_tips''] = Some w \<and>
                      path_lookup test_excess_wages [''federal'', ''social_security_wages''] = Some s \<and>
                      num_val w = Some y \<and> num_val s = Some x \<longrightarrow>
                      (inconsistency_warning \<in> set warnings \<longleftrightarrow> x \<noteq> 0 \<and> y \<noteq> 0 \<and> y < x)"
    by blast
  from n have "inconsistency_warning \<in> set warnings \<longleftrightarrow> (50000::rat) \<noteq> 0 \<and> (40000::rat) \<noteq> 0 \<and> (40000::rat) < 50000"
    by (simp add: test_excess_wages_def)
  then have "inconsistency_warning \<in> set warnings" by simp
  with w r show ?thesis by auto
qed

text \<open>
  Claim C7 as it was stated fails when one of the two values is 0: the condition
  \<^verbatim>\<open>federal.get('wages_tips') and federal.get('social_security_wages') and ...\<close> reads a 0
  as false, so with wages of 0 and Social Security wages of 50000 no warning is appended,
  though both are present and the second is the greater.
\<close>

theorem quality_consistency_zero_wages_counterexample:
  "generate_quality_report test_zero_wages ten_chars ''ocr'' =
     Inr (JDict [(''confidence'', JStr ''low''),
                 (''warnings'', JList [JStr ''Missing critical fields: employee.name, employee.ssn, federal.federal_income_tax'',
                                       JStr ''Low text extraction - possible OCR issues'']),
                 (''text_quality'', JStr ''poor''),
                 (''extraction_method'', JStr ''ocr''),
                 (''text_length'', JInt 10),
                 (''critical_fields_missing'', JInt 3)]) \<and>
   path_lookup test_zero_wages [''federal'', ''wages_tips''] = Some (JFloat 0) \<and>
   path_lookup test_zero_wages [''federal'', ''social_security_wages''] = Some (JFloat 50000) \<and>
   py_gt (JFloat 50000) (JFloat 0) = Inr True"
  using report_zero_wages by (simp add: test_zero_wages_def)

subsection \<open>Normalization\<close>

lemma mask_sensitive_data_frame:
  assumes "field_tree d"
  shows "\<exists>d'. mask_sensitive_data repr d = Inr d' \<and> frame {''employee'', ''employer''} d d'"
proof -
  from assms obtain kvs where d: "d = JDict kvs" by (cases d) (auto simp: field_tree_def)
  from mask_employee_ssn_tree[of kvs repr] assms d obtain d1 where
    s1: "mask_employee_ssn repr d = Inr d1" and f1: "frame {''employee''} d d1" by auto
  from frame_dict[OF f1] obtain kvs1 where d1: "d1 = JDict kvs1" by blast
  from mask_employer_ein_tree[of kvs1 repr] frame_field_tree[OF f1] d1 obtain d2 where
    s2: "mask_employer_ein repr d1 = Inr d2" and f2: "frame {''employer''} d1 d2" by auto
  have "mask_sensitive_data repr d = Inr d2" by (simp add: mask_sensitive_data_def s1 s2)
  moreover have "frame ({''employee''} \<union> {''employer''}) d d2" using f1 f2 by (rule frame_trans)
  ultimately show ?thesis by (auto simp add: insert_commute)
qed

lemma normalize_state_codes_frame:
  assumes "field_tree d"
  shows "\<exists>d'. normalize_state_codes d = Inr d' \<and> frame {''employee'', ''employer'', ''state_local''} d d'"
proof -
  from assms obtain kvs where d: "d = JDict kvs" by (cases d) (auto simp: field_tree_def)
  from normalize_address_state_tree[of kvs "''employee''"] assms d obtain d1 where
    s1: "normalize_address_state ''employee'' d = Inr d1" and f1: "frame {''employee''} d d1" by auto
  from frame_dict[OF f1] obtain kvs1 where d1: "d1 = JDict kvs1" by blast
  from normalize_address_state_tree[of kvs1 "''employer''"] frame_field_tree[OF f1] d1 obtain d2 where
    s2: "normalize_address_state ''employer'' d1 = Inr d2" and f2: "frame {''employer''} d1 d2" by auto
  from frame_dict[OF f2] obtain kvs2 where d2: "d2 = JDict kvs2" by blast
  have ft2: "field_tree (JDict kvs2)" using frame_field_tree[OF f2] d2 by simp
  from for_each_state_local_tree[of kvs2 normalize_state_of "\<lambda>x y. True", OF ft2] normalize_state_of_is_dict d2
  obtain d3 where
    s3: "for_each_state_local normalize_state_of d2 = Inr d3" and f3: "frame {''state_local''} d2 d3"
    by blast
  have "normalize_state_codes d = Inr d3" by (simp add: normalize_state_codes_def s1 s2 s3)
  moreover have "frame (({''employee''} \<union> {''employer''}) \<union> {''state_local''}) d d3"
    using frame_trans[OF frame_trans[OF f1 f2] f3] .
  ultimately show ?thesis by (auto simp add: insert_commute)
qed

lemma convert_numeric_fields_frame:
  assumes "field_tree d"
  shows "\<exists>d'. convert_numeric_fields d = Inr d' \<and> frame {''federal'', ''state_local''} d d'"
proof -
  from assms obtain kvs where d: "d = JDict kvs" by (cases d) (auto simp: field_tree_def)
  from convert_federal_tree[of kvs] assms d obtain d1 where
    s1: "convert_federal d = Inr d1" and f1: "frame {''federal''} d d1" by auto
  from frame_dict[OF f1] obtain kvs1 where d1: "d1 = JDict kvs1" by blast
  have ft1: "field_tree (JDict kvs1)" using frame_field_tree[OF f1] d1 by simp
  from for_each_state_local_tree[of kvs1 "\<lambda>state_data. convert_fields state_data state_monetary_fields"
         "\<lambda>x y. \<forall>f \<in> set state_monetary_fields. path_lookup y [f] = map_option spec_convert (path_lookup x [f])", OF ft1]
       convert_state_entry d1
  obtain d2 where
    s2: "for_each_state_local (\<lambda>state_data. convert_fields state_data state_monetary_fields) d1 = Inr d2" and
    f2: "frame {''state_local''} d1 d2"
    by blast
  have "convert_numeric_fields d = Inr d2" by (simp add: convert_numeric_fields_def s1 s2)
  moreover have "frame ({''federal''} \<union> {''state_local''}) d d2" using f1 f2 by (rule frame_trans)
  ultimately show ?thesis by (auto simp add: insert_commute)
qed

lemma frame_keys: "frame T (JDict kvs) (JDict kvs') \<Longrightarrow> map fst kvs' = map fst kvs"
  unfolding frame_def by auto

lemma frame_other: "frame T (JDict kvs) (JDict kvs') \<Longrightarrow> k \<notin> T \<Longrightarrow> map_of kvs' k = map_of kvs k"
  unfolding frame_def by auto

lemma frame_empty: "frame T (JDict kvs) (JDict kvs') \<Longrightarrow> map_of kvs k = Some v \<Longrightarrow> \<not> truthy v \<Longrightarrow> map_of kvs' k = Some v"
  unfolding frame_def by auto

lemma frame_full: "frame T d d' \<Longrightarrow> frame UNIV d d'"
  unfolding frame_def by auto

text \<open>
  Claim C10, as amended. For every raw field blob that is not empty and has the shape of a
  field tree, normalization returns a field tree with the five sections \<^verbatim>\<open>employee\<close>,
  \<^verbatim>\<open>employer\<close>, \<^verbatim>\<open>federal\<close>, \<^verbatim>\<open>state_local\<close> and \<^verbatim>\<open>other_boxes\<close>, in this order and no
  other; a section that the blob does not have is the empty mapping (the empty list for
  \<^verbatim>\<open>state_local\<close>), and \<^verbatim>\<open>other_boxes\<close> is the value of the blob, unmodified.
\<close>

theorem normalize_data_sections:
  assumes ft: "field_tree data" and ne: "truthy data"
  shows "\<exists>kvs. normalize_data repr data = Inr (JDict kvs) \<and>
           map fst kvs = [''employee'', ''employer'', ''federal'', ''state_local'', ''other_boxes''] \<and>
           field_tree (JDict kvs) \<and>
           (path_lookup data [''employee''] = None \<longrightarrow> map_of kvs ''employee'' = Some (JDict [])) \<and>
           (path_lookup data [''employer''] = None \<longrightarrow> map_of kvs ''employer'' = Some (JDict [])) \<and>
           (path_lookup data [''federal''] = None \<longrightarrow> map_of kvs ''federal'' = Some (JDict [])) \<and>
           (path_lookup data [''state_local''] = None \<longrightarrow> map_of kvs ''state_local'' = Some (JList [])) \<and>
           map_of kvs ''other_boxes'' =
             Some (case path_lookup data [''other_boxes''] of None \<Rightarrow> JDict [] | Some boxes \<Rightarrow> boxes)"
proof -
  from ft obtain kvs0 where d: "data = JDict kvs0" by (cases data) (auto simp: field_tree_def)
  let ?get = "\<lambda>k dflt. (case map_of kvs0 k of None \<Rightarrow> dflt | Some x \<Rightarrow> x)"
  let ?N = "[(''employee'', ?get ''employee'' (JDict [])), (''employer'', ?get ''employer'' (JDict [])),
             (''federal'', ?get ''federal'' (JDict [])), (''state_local'', ?get ''state_local'' (JList [])),
             (''other_boxes'', ?get ''other_boxes'' (JDict []))]"
  have p1: "party_ok (?get ''employee'' (JDict []))"
    using ft d by (cases "map_of kvs0 ''employee''") (simp_all add: field_tree_def party_ok_def)
  have p2: "party_ok (?get ''employer'' (JDict []))"
    using ft d by (cases "map_of kvs0 ''employer''") (simp_all add: field_tree_def party_ok_def)
  have p3: "is_dict (?get ''federal'' (JDict []))"
    using ft d by (cases "map_of kvs0 ''federal''") (simp_all add: field_tree_def is_dict_def)
  have p4: "state_local_ok (?get ''state_local'' (JList []))"
    using ft d by (cases "map_of kvs0 ''state_local''") (simp_all add: field_tree_def state_local_ok_def)
  have ftN: "field_tree (JDict ?N)"
    using p1 p2 p3 p4 by (simp add: field_tree_def)
  from mask_sensitive_data_frame[OF ftN, of repr] obtain n1 where
    s1: "mask_sensitive_data repr (JDict ?N) = Inr n1" and f1: "frame {''employee'', ''employer''} (JDict ?N) n1"
    by blast
  from normalize_state_codes_frame[OF frame_field_tree[OF f1]] obtain n2 where
    s2: "normalize_state_codes n1 = Inr n2" and f2: "frame {''employee'', ''employer'', ''state_local''} n1 n2"
    by blast
  from convert_numeric_fields_frame[OF frame_field_tree[OF f2]] obtain n3 where
    s3: "convert_numeric_fields n2 = Inr n3" and f3: "frame {''federal'', ''state_local''} n2 n3"
    by blast
  have fr: "frame {''employee'', ''employer'', ''federal'', ''state_local''} (JDict ?N) n3"
  proof -
    have "frame (({''employee'', ''employer''} \<union> {''employee'', ''employer'', ''state_local''}) \<union> {''federal'', ''state_local''}) (JDict ?N) n3"
      using frame_trans[OF frame_trans[OF f1 f2] f3] .
    moreover have "({''employee'', ''employer''} \<union> {''employee'', ''employer'', ''state_local''}) \<union> {''federal'', ''state_local''}
        = {''employee'', ''employer'', ''federal'', ''state_local''}" by auto
    ultimately show ?thesis by simp
  qed
  from frame_dict[OF fr] obtain kvs where n3: "n3 = JDict kvs" by blast
  have run: "normalize_data repr data = Inr (JDict kvs)"
    using ne d s1 s2 s3 n3 by (simp add: normalize_data_def Let_def)
  have keys: "map fst kvs = [''employee'', ''employer'', ''federal'', ''state_local'', ''other_boxes'']"
    using frame_keys[OF fr[unfolded n3]] by simp
  have tree: "field_tree (JDict kvs)" using frame_field_tree[OF fr] n3 by simp
  have boxes: "map_of kvs ''other_boxes'' = Some (?get ''other_boxes'' (JDict []))"
    using frame_other[OF fr[unfolded n3], of "''other_boxes''"] by simp
  have e1: "path_lookup data [''employee''] = None \<longrightarrow> map_of kvs ''employee'' = Some (JDict [])"
  proof
    assume "path_lookup data [''employee''] = None"
    then have "map_of ?N ''employee'' = Some (JDict [])" using d by (simp split: option.splits)
    from frame_empty[OF fr[unfolded n3] this] show "map_of kvs ''employee'' = Some (JDict [])" by simp
  qed
  have e2: "path_lookup data [''employer''] = None \<longrightarrow> map_of kvs ''employer'' = Some (JDict [])"
  proof
    assume "path_lookup data [''employer''] = None"
    then have "map_of ?N ''employer'' = Some (JDict [])" using d by (simp split: option.splits)
    from frame_empty[OF fr[unfolded n3] this] show "map_of kvs ''employer'' = Some (JDict [])" by simp
  qed
  have e3: "path_lookup data [''federal''] = None \<longrightarrow> map_of kvs ''federal'' = Some (JDict [])"
  proof
    assume "path_lookup data [''federal''] = None"
    then have "map_of ?N ''federal'' = Some (JDict [])" using d by (simp split: option.splits)
    from frame_empty[OF fr[unfolded n3] this] show "map_of kvs ''federal'' = Some (JDict [])" by simp
  qed
  have e4: "path_lookup data [''state_local''] = None \<longrightarrow> map_of kvs ''state_local'' = Some (JList [])"
  proof
    assume "path_lookup data [''state_local''] = None"
    then have "map_of ?N ''state_local'' = Some (JList [])" using d by (simp split: option.splits)
    from frame_empty[OF fr[unfolded n3] this] show "map_of kvs ''state_local'' = Some (JList [])" by simp
  qed
  have b: "map_of kvs ''other_boxes'' =
             Some (case path_lookup data [''other_boxes''] of None \<Rightarrow> JDict [] | Some boxes \<Rightarrow> boxes)"
    using boxes d by (simp split: option.splits)
  show ?thesis
    by (rule exI[of _ kvs]) (use run keys tree e1 e2 e3 e4 b in blast)
qed

theorem normalize_data_sections_witness:
  "\<exists>kvs. normalize_data sample_repr test_masking = Inr (JDict kvs) \<and>
     map fst kvs = [''employee'', ''employer'', ''federal'', ''state_local'', ''other_boxes''] \<and>
     map_of kvs ''federal'' = Some (JDict []) \<and>
     map_of kvs ''state_local'' = Some (JList []) \<and>
     map_of kvs ''other_boxes'' = Some (JDict [])"
proof -
  have ft: "field_tree test_masking" by (simp add: test_masking_def field_tree_def party_ok_def)
  have ne: "truthy test_masking" by (simp add: test_masking_def)
  from normalize_data_sections[OF ft ne, of sample_repr] show ?thesis
    apply (elim exE conjE)
    subgoal for kvs by (rule exI[of _ kvs]) (simp add: test_masking_def)
    done
qed

text \<open>
  Claim C10 as it was stated fails on the empty mapping: \<^verbatim>\<open>if not data: return {}\<close> returns
  it as it is, with none of the five sections.
\<close>

theorem normalize_data_empty_counterexample:
  "normalize_data sample_repr (JDict []) = Inr (JDict []) \<and>
   path_lookup (JDict []) [''employee''] = None \<and>
   path_lookup (JDict []) [''other_boxes''] = None"
  by (simp add: normalize_data_def)

end
